theory Spec2Isabelle
  imports Complex_Main "HOL-Library.Sublist"
begin

section \<open>Data model\<close>

text \<open>
  The bot is asynchronous TypeScript that talks to a ledger RPC endpoint and to the Jupiter
  quoting service.  An async function is modelled as a function from the world it starts in
  to its settlement (\<open>Inl\<close> a rejection, \<open>Inr\<close> a value) and the world it leaves.  The
  world holds the millisecond clock read by \<open>Date.now()\<close>, the mutable \<open>process.env\<close> and
  the trace of every remote call and timer, each with the answer it got.  Remote services are
  deterministic oracles that may inspect the whole world (so also the history) when they
  answer.  Round trips take no clock time; only timers advance the clock.  Console output is
  left out.  JavaScript numbers are \<open>int\<close> where the code handles integers (basis points,
  lamports, block heights) and \<open>real\<close> for token amounts; \<open>NaN\<close> and rounding of doubles
  are outside the model.
\<close>

datatype error = Error string

datatype transaction_error = TransactionError string

record transaction_meta =
  err :: "transaction_error option"

record versioned_transaction_response =
  meta :: "transaction_meta option"

record simulated_transaction_response =
  sim_err :: "transaction_error option"
  sim_logs :: "string list option"

record versioned_transaction =
  recentBlockhash :: string
  signatures :: "string list"
  message_bytes :: string

datatype transaction_like =
    LegacyTransaction "string option list"
  | VersionedTransaction versioned_transaction

record wallet =
  publicKey :: string
  payer :: string

record quote_request =
  inputMint :: string
  outputMint :: string
  amount :: int
  slippageBps :: int

record quote_response =
  quote_inputMint :: string
  inAmount :: string
  quote_outputMint :: string
  outAmount :: "string option"
  priceImpactPct :: string

record swap_request =
  quoteResponse :: quote_response
  userPublicKey :: string
  dynamicComputeUnitLimit :: bool
  dynamicSlippage :: bool
  asLegacyTransaction :: bool
  wrapAndUnwrapSol :: bool
  maxLamports :: int
  priorityLevel :: string
  computeUnitLimit :: "int option"
  computeUnitPriceMicroLamports :: "int option"

record swap_response =
  swapTransaction :: string
  swap_lastValidBlockHeight :: nat

record swap_options =
  isSell :: "bool option"
  opt_isNewToken :: "bool option"

record mint_account =
  decimals :: "nat option"

datatype event =
    SendRawTransaction string "error + string"
  | GetBlockHeight "error + nat"
  | GetTransaction string "error + versioned_transaction_response option"
  | SimulateTransaction versioned_transaction string "error + simulated_transaction_response"
  | GetBalance string "error + nat"
  | GetTokenAccountBalance string "error + real option"
  | GetParsedAccountInfo string "error + mint_account option"
  | QuoteGet quote_request "error + quote_response option"
  | SwapPost swap_request "error + swap_response"
  | SetTimeout nat

record world =
  clock :: nat
  process_env :: "string \<Rightarrow> string option"
  trace :: "event list"

type_synonym 'a promise = "world \<Rightarrow> (error + 'a) \<times> world"

text \<open>The ledger RPC client (\<open>Connection\<close>): what each request answers in a given world.\<close>

record connection =
  rpc_sendRawTransaction :: "world \<Rightarrow> string \<Rightarrow> error + string"
  rpc_getBlockHeight :: "world \<Rightarrow> error + nat"
  rpc_getTransaction :: "world \<Rightarrow> string \<Rightarrow> error + versioned_transaction_response option"
  rpc_simulateTransaction ::
    "world \<Rightarrow> versioned_transaction \<Rightarrow> string \<Rightarrow> error + simulated_transaction_response"
  rpc_getBalance :: "world \<Rightarrow> string \<Rightarrow> error + nat"
  rpc_getTokenAccountBalance :: "world \<Rightarrow> string \<Rightarrow> error + real option"
  rpc_getParsedAccountInfo :: "world \<Rightarrow> string \<Rightarrow> error + mint_account option"

text \<open>
  Everything else the code imports: the JavaScript built-ins it calls on strings, the key and
  transaction codecs of the Solana libraries, the \<open>Connection\<close> constructor and the Jupiter
  client.  Signatures and keys are represented by their base58 text, so \<open>bs58.encode\<close> is
  the identity.
\<close>

record platform =
  parseInt :: "string \<Rightarrow> int"
  parseFloat :: "string \<Rightarrow> real"
  numberToString :: "real \<Rightarrow> string"
  bigInt :: "string \<Rightarrow> error + int"
  newPublicKey :: "string \<Rightarrow> error + string"
  keypairFromSecretKey :: "string \<Rightarrow> error + wallet"
  associatedTokenAddress :: "string \<Rightarrow> string \<Rightarrow> error + string"
  deserialize :: "string \<Rightarrow> error + versioned_transaction"
  sign :: "versioned_transaction \<Rightarrow> wallet \<Rightarrow> error + versioned_transaction"
  serialize :: "versioned_transaction \<Rightarrow> string"
  newConnection :: "string \<Rightarrow> connection"
  jup_quoteGet :: "world \<Rightarrow> quote_request \<Rightarrow> error + quote_response option"
  jup_swapPost :: "world \<Rightarrow> swap_request \<Rightarrow> error + swap_response"

section \<open>Configuration (config.ts)\<close>

definition SOL_MINT :: string where
  "SOL_MINT = ''So11111111111111111111111111111111111111112''"

definition SOL_DECIMALS :: nat where
  "SOL_DECIMALS = 9"

record env_config =
  PRIVATE_KEY :: string
  BUY_AMOUNT_SOL :: string
  SLIPPAGE_BPS :: string
  RPC_ENDPOINT :: string
  PRIORITY_FEE_LAMPORTS :: "string option"
  PRIORITY_LEVEL :: "string option"
  COMPUTE_UNIT_LIMIT :: "string option"
  COMPUTE_UNIT_PRICE_MICROLAMPORTS :: "string option"
  SELL_DELAY_SECONDS :: "string option"
  BALANCE_RETRY_COUNT :: "string option"
  BALANCE_RETRY_DELAY_MS :: "string option"
  MAX_RETRY_DURATION_MS :: "string option"
  RETRY_DELAY_MS :: "string option"
  NEW_TOKEN_MODE :: string
  BASE_SLIPPAGE_BPS :: int
  NEW_TOKEN_SLIPPAGE_MULTIPLIER :: int
  MAX_SLIPPAGE_BPS :: int
  MIN_SLIPPAGE_BPS :: int

text \<open>\<open>v || d\<close> on an optional string: the default replaces \<open>undefined\<close> and the empty string.\<close>

definition or_default :: "string option \<Rightarrow> string \<Rightarrow> string" where
  "or_default v d = (case v of None \<Rightarrow> d | Some s \<Rightarrow> (if s = [] then d else s))"

text \<open>Truthiness of an optional string, as in \<open>v ? a : b\<close> and \<open>!v\<close>.\<close>

definition truthy :: "string option \<Rightarrow> bool" where
  "truthy v = (case v of None \<Rightarrow> False | Some s \<Rightarrow> s \<noteq> [])"

definition getConfig :: "platform \<Rightarrow> (string \<Rightarrow> string option) \<Rightarrow> env_config" where
  "getConfig P env =
     \<lparr> PRIVATE_KEY = or_default (env ''PRIVATE_KEY'') [],
       BUY_AMOUNT_SOL = or_default (env ''BUY_AMOUNT_SOL'') [],
       SLIPPAGE_BPS = or_default (env ''SLIPPAGE_BPS'') ''100'',
       RPC_ENDPOINT = or_default (env ''RPC_ENDPOINT'') ''https://api.mainnet-beta.solana.com'',
       PRIORITY_FEE_LAMPORTS = env ''PRIORITY_FEE_LAMPORTS'',
       PRIORITY_LEVEL = env ''PRIORITY_LEVEL'',
       COMPUTE_UNIT_LIMIT = env ''COMPUTE_UNIT_LIMIT'',
       COMPUTE_UNIT_PRICE_MICROLAMPORTS = env ''COMPUTE_UNIT_PRICE_MICROLAMPORTS'',
       SELL_DELAY_SECONDS = env ''SELL_DELAY_SECONDS'',
       BALANCE_RETRY_COUNT = env ''BALANCE_RETRY_COUNT'',
       BALANCE_RETRY_DELAY_MS = env ''BALANCE_RETRY_DELAY_MS'',
       MAX_RETRY_DURATION_MS = env ''MAX_RETRY_DURATION_MS'',
       RETRY_DELAY_MS = env ''RETRY_DELAY_MS'',
       NEW_TOKEN_MODE = or_default (env ''NEW_TOKEN_MODE'') ''false'',
       BASE_SLIPPAGE_BPS = parseInt P (or_default (env ''BASE_SLIPPAGE_BPS'') ''200''),
       NEW_TOKEN_SLIPPAGE_MULTIPLIER =
         parseInt P (or_default (env ''NEW_TOKEN_SLIPPAGE_MULTIPLIER'') ''5''),
       MAX_SLIPPAGE_BPS = parseInt P (or_default (env ''MAX_SLIPPAGE_BPS'') ''5000''),
       MIN_SLIPPAGE_BPS = parseInt P (or_default (env ''MIN_SLIPPAGE_BPS'') ''1000'') \<rparr>"

text \<open>\<open>toLamports\<close>: \<open>Math.round\<close> rounds halves up, as \<open>round\<close> does.\<close>

definition toLamports :: "real \<Rightarrow> nat option \<Rightarrow> int" where
  "toLamports amt decs =
     round (amt * 10 ^ (case decs of None \<Rightarrow> SOL_DECIMALS | Some d \<Rightarrow> d))"

definition getWallet :: "platform \<Rightarrow> (string \<Rightarrow> string option) \<Rightarrow> error + wallet" where
  "getWallet P env =
     (case env ''PRIVATE_KEY'' of
        None \<Rightarrow> Inl (Error ''PRIVATE_KEY is not set in .env'')
      | Some k \<Rightarrow>
          if k = [] then Inl (Error ''PRIVATE_KEY is not set in .env'')
          else keypairFromSecretKey P k)"

section \<open>Promises, timers and remote calls\<close>

definition resolve :: "'a \<Rightarrow> 'a promise" where
  "resolve x w = (Inr x, w)"

definition reject :: "error \<Rightarrow> 'a promise" where
  "reject e w = (Inl e, w)"

text \<open>A synchronous computation that may throw, run inside an async function.\<close>

definition settle :: "error + 'a \<Rightarrow> 'a promise" where
  "settle r w = (r, w)"

definition await :: "'a promise \<Rightarrow> ('a \<Rightarrow> 'b promise) \<Rightarrow> 'b promise" where
  "await m k w = (case m w of (Inl e, w') \<Rightarrow> (Inl e, w') | (Inr x, w') \<Rightarrow> k x w')"

definition try_catch :: "'a promise \<Rightarrow> (error \<Rightarrow> 'a promise) \<Rightarrow> 'a promise" where
  "try_catch m h w = (case m w of (Inl e, w') \<Rightarrow> h e w' | (Inr x, w') \<Rightarrow> (Inr x, w'))"

text \<open>Reading and writing \<open>process.env\<close>.\<close>

definition with_env :: "((string \<Rightarrow> string option) \<Rightarrow> 'a promise) \<Rightarrow> 'a promise" where
  "with_env f w = f (process_env w) w"

definition set_env :: "string \<Rightarrow> string \<Rightarrow> unit promise" where
  "set_env k v w = (Inr (), w\<lparr>process_env := (process_env w)(k \<mapsto> v)\<rparr>)"

fun message :: "error \<Rightarrow> string" where
  "message (Error m) = m"

text \<open>\<open>new Promise(resolve => setTimeout(resolve, ms))\<close>, the body of \<open>wait\<close> and \<open>delay\<close>.\<close>

definition setTimeout_promise :: "nat \<Rightarrow> unit promise" where
  "setTimeout_promise ms w =
     (Inr (), w\<lparr>clock := clock w + ms, trace := trace w @ [SetTimeout ms]\<rparr>)"

definition wait :: "nat \<Rightarrow> unit promise" where
  "wait ms = setTimeout_promise ms"

definition delay :: "nat \<Rightarrow> unit promise" where
  "delay ms = setTimeout_promise ms"

definition sendRawTransaction :: "connection \<Rightarrow> string \<Rightarrow> string promise" where
  "sendRawTransaction conn tx w =
     (let r = rpc_sendRawTransaction conn w tx
      in (r, w\<lparr>trace := trace w @ [SendRawTransaction tx r]\<rparr>))"

definition getBlockHeight :: "connection \<Rightarrow> nat promise" where
  "getBlockHeight conn w =
     (let r = rpc_getBlockHeight conn w
      in (r, w\<lparr>trace := trace w @ [GetBlockHeight r]\<rparr>))"

definition getTransaction ::
  "connection \<Rightarrow> string \<Rightarrow> versioned_transaction_response option promise" where
  "getTransaction conn sig w =
     (let r = rpc_getTransaction conn w sig
      in (r, w\<lparr>trace := trace w @ [GetTransaction sig r]\<rparr>))"

definition simulateTransaction ::
  "connection \<Rightarrow> versioned_transaction \<Rightarrow> string \<Rightarrow> simulated_transaction_response promise" where
  "simulateTransaction conn tx commitment w =
     (let r = rpc_simulateTransaction conn w tx commitment
      in (r, w\<lparr>trace := trace w @ [SimulateTransaction tx commitment r]\<rparr>))"

definition getBalance :: "connection \<Rightarrow> string \<Rightarrow> nat promise" where
  "getBalance conn owner w =
     (let r = rpc_getBalance conn w owner
      in (r, w\<lparr>trace := trace w @ [GetBalance owner r]\<rparr>))"

definition getTokenAccountBalance :: "connection \<Rightarrow> string \<Rightarrow> real option promise" where
  "getTokenAccountBalance conn account w =
     (let r = rpc_getTokenAccountBalance conn w account
      in (r, w\<lparr>trace := trace w @ [GetTokenAccountBalance account r]\<rparr>))"

definition getParsedAccountInfo :: "connection \<Rightarrow> string \<Rightarrow> mint_account option promise" where
  "getParsedAccountInfo conn account w =
     (let r = rpc_getParsedAccountInfo conn w account
      in (r, w\<lparr>trace := trace w @ [GetParsedAccountInfo account r]\<rparr>))"

definition quoteGet :: "platform \<Rightarrow> quote_request \<Rightarrow> quote_response option promise" where
  "quoteGet P params w =
     (let r = jup_quoteGet P w params
      in (r, w\<lparr>trace := trace w @ [QuoteGet params r]\<rparr>))"

definition swapPost :: "platform \<Rightarrow> swap_request \<Rightarrow> swap_response promise" where
  "swapPost P req w =
     (let r = jup_swapPost P w req
      in (r, w\<lparr>trace := trace w @ [SwapPost req r]\<rparr>))"

section \<open>Transaction sender (transactionSender.ts)\<close>

record blockhash_with_expiry =
  blockhash :: string
  lastValidBlockHeight :: nat

record sender_params =
  connection :: connection
  serializedTransaction :: string
  blockhashWithExpiryBlockHeight :: blockhash_with_expiry
  timeoutIn :: "nat option"

text \<open>
  The \<open>while (!done && Date.now() < timeoutAt)\<close> loop; \<open>done\<close> is never assigned, so the
  guard is the clock test.  Each way round the loop that does not return ends in
  \<open>wait(2000)\<close>, in the \<open>try\<close> block or in the \<open>catch\<close> block.
\<close>

function confirmation_loop ::
  "connection \<Rightarrow> string \<Rightarrow> nat \<Rightarrow> nat \<Rightarrow> versioned_transaction_response option
     \<Rightarrow> versioned_transaction_response option promise" where
  "confirmation_loop conn transactionSignature lastValid timeoutAt transactionResponse w =
     (if clock w < timeoutAt then
        (case getTransaction conn transactionSignature w of
           (Inl e, w1) \<Rightarrow>
             confirmation_loop conn transactionSignature lastValid timeoutAt transactionResponse
               (snd (wait 2000 w1))
         | (Inr r, w1) \<Rightarrow>
             (case r of
                Some response \<Rightarrow> (Inr (Some response), w1)
              | None \<Rightarrow>
                  (case getBlockHeight conn w1 of
                     (Inl e, w2) \<Rightarrow>
                       confirmation_loop conn transactionSignature lastValid timeoutAt None
                         (snd (wait 2000 w2))
                   | (Inr currentBlockHeight, w2) \<Rightarrow>
                       if currentBlockHeight > lastValid then (Inr None, w2)
                       else confirmation_loop conn transactionSignature lastValid timeoutAt None
                              (snd (wait 2000 w2)))))
      else (Inr transactionResponse, w))"
  by pat_completeness auto
termination
  by (relation "measure (\<lambda>(conn, sig, lastValid, timeoutAt, resp, w). timeoutAt - clock w)")
     (auto simp: getTransaction_def getBlockHeight_def wait_def setTimeout_promise_def Let_def)

definition transactionSenderAndConfirmationWaiter ::
  "sender_params \<Rightarrow> versioned_transaction_response option promise" where
  "transactionSenderAndConfirmationWaiter params =
     await (sendRawTransaction (connection params) (serializedTransaction params))
       (\<lambda>transactionSignature w.
          let timeoutAt = clock w + (case timeoutIn params of None \<Rightarrow> 60000 | Some t \<Rightarrow> t)
          in await (getBlockHeight (connection params))
               (\<lambda>currentBlockHeight.
                  confirmation_loop (connection params) transactionSignature
                    (lastValidBlockHeight (blockhashWithExpiryBlockHeight params)) timeoutAt None)
               w)"

section \<open>Signatures (getSignature.ts)\<close>

fun getSignature :: "transaction_like \<Rightarrow> error + string" where
  "getSignature (LegacyTransaction sigs) =
     (case sigs of
        [] \<Rightarrow> Inl (Error ''Cannot read properties of undefined'')
      | s # _ \<Rightarrow>
          (case s of
             None \<Rightarrow> Inl (Error ''Transaction has no signature'')
           | Some signature \<Rightarrow> Inr signature))"
| "getSignature (VersionedTransaction t) =
     (case signatures t of
        [] \<Rightarrow> Inl (Error ''Transaction has no signatures'')
      | signature # _ \<Rightarrow> Inr signature)"

section \<open>Slippage policy (slippage.ts)\<close>

definition calculateSlippage :: "platform \<Rightarrow> (string \<Rightarrow> string option) \<Rightarrow> bool option \<Rightarrow> int" where
  "calculateSlippage P env isNewToken =
     (let config = getConfig P env in
      if \<not> (case isNewToken of None \<Rightarrow> False | Some b \<Rightarrow> b)
      then parseInt P (or_default (Some (SLIPPAGE_BPS config)) ''100'')
      else
        let baseSlippage = BASE_SLIPPAGE_BPS config;
            calculatedSlippage = baseSlippage * NEW_TOKEN_SLIPPAGE_MULTIPLIER config;
            calculatedSlippage = min calculatedSlippage (MAX_SLIPPAGE_BPS config);
            calculatedSlippage = max calculatedSlippage (MIN_SLIPPAGE_BPS config)
        in calculatedSlippage)"

section \<open>Token utilities (tokens.ts)\<close>

definition getTokenDecimals :: "connection \<Rightarrow> string \<Rightarrow> nat promise" where
  "getTokenDecimals conn tokenMint =
     (if tokenMint = SOL_MINT then resolve SOL_DECIMALS
      else
        try_catch
          (await (getParsedAccountInfo conn tokenMint)
             (\<lambda>mintInfo.
                case mintInfo of
                  None \<Rightarrow> reject (Error ''Could not parse mint info'')
                | Some account \<Rightarrow>
                    (case decimals account of
                       None \<Rightarrow> reject (Error ''Could not parse mint info'')
                     | Some d \<Rightarrow>
                         if d \<noteq> 0 then resolve d
                         else reject (Error ''Could not parse mint info''))))
          (\<lambda>error. resolve 9))"

text \<open>The body of the outer \<open>try\<close> block of \<open>getTokenBalance\<close>.\<close>

definition getTokenBalance_try :: "platform \<Rightarrow> connection \<Rightarrow> wallet \<Rightarrow> string \<Rightarrow> real promise" where
  "getTokenBalance_try P conn wal tokenMint =
     (if tokenMint = SOL_MINT then
        await (getBalance conn (publicKey wal))
          (\<lambda>solBalance. resolve (real solBalance / 10 ^ SOL_DECIMALS))
      else
        await (settle (newPublicKey P tokenMint))
          (\<lambda>mint.
             await (settle (associatedTokenAddress P mint (publicKey wal)))
               (\<lambda>tokenAccount.
                  try_catch
                    (await (getTokenAccountBalance conn tokenAccount)
                       (\<lambda>uiAmount.
                          resolve
                            (parseFloat P
                               (or_default (map_option (numberToString P) uiAmount) ''0''))))
                    (\<lambda>error.
                       if sublist ''could not find account'' (message error) then resolve 0
                       else reject error))))"

definition getTokenBalance :: "platform \<Rightarrow> connection \<Rightarrow> wallet \<Rightarrow> string \<Rightarrow> real promise" where
  "getTokenBalance P conn wal tokenMint =
     try_catch (getTokenBalance_try P conn wal tokenMint) (\<lambda>error. resolve 0)"

function balance_loop ::
  "platform \<Rightarrow> connection \<Rightarrow> wallet \<Rightarrow> string \<Rightarrow> nat \<Rightarrow> nat \<Rightarrow> real \<Rightarrow> real \<Rightarrow> nat
     \<Rightarrow> real promise" where
  "balance_loop P conn wal tokenMint retries delayMs initialBalance currentBalance attempts w =
     (if attempts < retries \<and> currentBalance = initialBalance then
        (case await (delay delayMs) (\<lambda>_. getTokenBalance P conn wal tokenMint) w of
           (Inl e, w1) \<Rightarrow> (Inl e, w1)
         | (Inr balance, w1) \<Rightarrow>
             balance_loop P conn wal tokenMint retries delayMs initialBalance balance
               (attempts + 1) w1)
      else (Inr currentBalance, w))"
  by pat_completeness auto
termination
  by (relation "measure (\<lambda>(P, conn, wal, tokenMint, retries, delayMs, initialBalance,
        currentBalance, attempts, w). retries - attempts)") auto

definition waitForBalanceChange ::
  "platform \<Rightarrow> connection \<Rightarrow> wallet \<Rightarrow> string \<Rightarrow> nat option \<Rightarrow> nat option \<Rightarrow> real promise" where
  "waitForBalanceChange P conn wal tokenMint retries delayMs =
     await (getTokenBalance P conn wal tokenMint)
       (\<lambda>initialBalance.
          balance_loop P conn wal tokenMint
            (case retries of None \<Rightarrow> 5 | Some r \<Rightarrow> r)
            (case delayMs of None \<Rightarrow> 2000 | Some d \<Rightarrow> d)
            initialBalance initialBalance 0)"

section \<open>Swap utilities (swap.ts)\<close>

definition tx_failed :: "versioned_transaction_response \<Rightarrow> bool" where
  "tx_failed response = (case meta response of None \<Rightarrow> False | Some m \<Rightarrow> err m \<noteq> None)"

definition executeSwap :: "platform \<Rightarrow> connection \<Rightarrow> swap_response \<Rightarrow> wallet \<Rightarrow> string promise" where
  "executeSwap P conn swapResponse wal =
     await (settle (deserialize P (swapTransaction swapResponse)))
       (\<lambda>unsigned.
          await (settle (sign P unsigned wal))
            (\<lambda>transaction.
               await (settle (getSignature (VersionedTransaction transaction)))
                 (\<lambda>signature.
                    await (simulateTransaction conn transaction ''processed'')
                      (\<lambda>simulatedTransactionResponse.
                         if sim_err simulatedTransactionResponse \<noteq> None
                         then reject (Error ''Transaction simulation failed'')
                         else
                           await
                             (transactionSenderAndConfirmationWaiter
                                \<lparr> connection = conn,
                                  serializedTransaction = serialize P transaction,
                                  blockhashWithExpiryBlockHeight =
                                    \<lparr> blockhash = recentBlockhash transaction,
                                      lastValidBlockHeight =
                                        swap_lastValidBlockHeight swapResponse \<rparr>,
                                  timeoutIn = None \<rparr>)
                             (\<lambda>transactionResponse.
                                case transactionResponse of
                                  None \<Rightarrow> reject (Error ''Transaction not confirmed'')
                                | Some response \<Rightarrow>
                                    if tx_failed response
                                    then reject (Error ''Transaction failed'')
                                    else resolve signature)))))"

definition getSwapResponse ::
  "platform \<Rightarrow> wallet \<Rightarrow> quote_response \<Rightarrow> swap_options option \<Rightarrow> swap_response promise" where
  "getSwapResponse P wal quote options =
     with_env
       (\<lambda>env.
          let config = getConfig P env;
              isNewToken =
                (case (case options of None \<Rightarrow> None | Some opts \<Rightarrow> opt_isNewToken opts) of
                   Some b \<Rightarrow> b
                 | None \<Rightarrow> NEW_TOKEN_MODE config = ''true'');
              priorityFeeLamports =
                (case PRIORITY_FEE_LAMPORTS config of
                   None \<Rightarrow> 10000000
                 | Some s \<Rightarrow> if s = [] then 10000000 else parseInt P s);
              priorityLevel = or_default (PRIORITY_LEVEL config) ''veryHigh'';
              slippageBps = calculateSlippage P env (Some isNewToken);
              swapRequest =
                \<lparr> quoteResponse = quote,
                  userPublicKey = publicKey wal,
                  dynamicComputeUnitLimit = True,
                  dynamicSlippage = False,
                  asLegacyTransaction = False,
                  wrapAndUnwrapSol = True,
                  maxLamports = priorityFeeLamports,
                  priorityLevel = priorityLevel,
                  computeUnitLimit =
                    (if truthy (COMPUTE_UNIT_LIMIT config)
                     then map_option (parseInt P) (COMPUTE_UNIT_LIMIT config) else None),
                  computeUnitPriceMicroLamports =
                    (if truthy (COMPUTE_UNIT_PRICE_MICROLAMPORTS config)
                     then map_option (parseInt P) (COMPUTE_UNIT_PRICE_MICROLAMPORTS config)
                     else None) \<rparr>
          in swapPost P swapRequest)"

definition simulateSwap :: "platform \<Rightarrow> connection \<Rightarrow> swap_response \<Rightarrow> wallet \<Rightarrow> unit promise" where
  "simulateSwap P conn swapResponse wal =
     await (settle (deserialize P (swapTransaction swapResponse)))
       (\<lambda>unsigned.
          await (settle (sign P unsigned wal))
            (\<lambda>transaction.
               await (simulateTransaction conn transaction ''confirmed'')
                 (\<lambda>simulatedResponse.
                    if sim_err simulatedResponse \<noteq> None
                    then reject (Error ''Transaction simulation failed'')
                    else resolve ())))"

text \<open>One pass through the \<open>try\<close> block of \<open>executeSwapSafely\<close>.\<close>

definition swap_attempt :: "platform \<Rightarrow> connection \<Rightarrow> quote_response \<Rightarrow> wallet \<Rightarrow> string promise" where
  "swap_attempt P conn quote wal =
     await (getSwapResponse P wal quote None)
       (\<lambda>swapResponse.
          await (simulateSwap P conn swapResponse wal)
            (\<lambda>_. executeSwap P conn swapResponse wal))"

function executeSwapSafely_loop ::
  "platform \<Rightarrow> connection \<Rightarrow> quote_response \<Rightarrow> wallet \<Rightarrow> nat \<Rightarrow> nat \<Rightarrow> error option
     \<Rightarrow> string promise" where
  "executeSwapSafely_loop P conn quote wal maxRetries attempt lastError w =
     (if attempt \<le> maxRetries then
        (case swap_attempt P conn quote wal w of
           (Inr signature, w1) \<Rightarrow> (Inr signature, w1)
         | (Inl error, w1) \<Rightarrow>
             executeSwapSafely_loop P conn quote wal maxRetries (attempt + 1) (Some error)
               (if attempt < maxRetries
                then snd (delay (min (500 * 2 ^ attempt) 2000) w1)
                else w1))
      else
        (Inl (case lastError of
                Some e \<Rightarrow> e
              | None \<Rightarrow> Error ''Swap failed after all retries''), w))"
  by pat_completeness auto
termination
  by (relation "measure (\<lambda>(P, conn, quote, wal, maxRetries, attempt, lastError, w).
        maxRetries + 1 - attempt)") auto

definition executeSwapSafely ::
  "platform \<Rightarrow> connection \<Rightarrow> quote_response \<Rightarrow> wallet \<Rightarrow> nat option \<Rightarrow> string promise" where
  "executeSwapSafely P conn quote wal maxRetries =
     executeSwapSafely_loop P conn quote wal (case maxRetries of None \<Rightarrow> 2 | Some n \<Rightarrow> n)
       1 None"

text \<open>
  \<open>safeSellAndClose\<close> tests the quote with \<open>!quote || !quote.outAmount\<close> only.  Its log
  line before the swap evaluates \<open>BigInt(quote.outAmount)\<close>, which throws on text that is
  not an integer; that evaluation is kept, its value is not used.
\<close>

definition safeSellAndClose ::
  "platform \<Rightarrow> connection \<Rightarrow> string \<Rightarrow> wallet \<Rightarrow> bool option \<Rightarrow> string promise" where
  "safeSellAndClose P conn tokenMint wal isNewToken =
     try_catch
       (await (getTokenBalance P conn wal tokenMint)
          (\<lambda>tokenBalance.
             if tokenBalance \<le> 0
             then reject (Error (''No balance available for token '' @ tokenMint))
             else
               await (settle (newPublicKey P tokenMint))
                 (\<lambda>mint.
                    await (getTokenDecimals conn mint)
                      (\<lambda>decs.
                         with_env
                           (\<lambda>env.
                              let amount = \<lfloor>tokenBalance * 10 ^ decs\<rfloor>;
                                  isNewTokenMode =
                                    (case isNewToken of
                                       Some b \<Rightarrow> b
                                     | None \<Rightarrow> NEW_TOKEN_MODE (getConfig P env) = ''true'');
                                  params =
                                    \<lparr> inputMint = tokenMint,
                                      outputMint = SOL_MINT,
                                      amount = amount,
                                      slippageBps = calculateSlippage P env (Some isNewTokenMode) \<rparr>
                              in await (quoteGet P params)
                                   (\<lambda>quote.
                                      case quote of
                                        None \<Rightarrow>
                                          reject (Error ''Failed to get valid quote for selling'')
                                      | Some q \<Rightarrow>
                                          (case outAmount q of
                                             None \<Rightarrow>
                                               reject
                                                 (Error ''Failed to get valid quote for selling'')
                                           | Some out \<Rightarrow>
                                               if out = [] then
                                                 reject
                                                   (Error ''Failed to get valid quote for selling'')
                                               else
                                                 await (settle (bigInt P out))
                                                   (\<lambda>logged.
                                                      executeSwapSafely P conn q wal (Some 3)))))))))
       (\<lambda>error. reject error)"

section \<open>Trader (trader.ts)\<close>

text \<open>
  The shared test of \<open>buy\<close> and \<open>sell\<close> on a quote:
  \<open>!quote || !quote.outAmount || BigInt(quote.outAmount) <= 0\<close> throws the given message,
  and \<open>BigInt\<close> throws its own error on text that is not an integer.
\<close>

definition checked_quote :: "platform \<Rightarrow> string \<Rightarrow> quote_response option \<Rightarrow> quote_response promise" where
  "checked_quote P msg quote =
     (case quote of
        None \<Rightarrow> reject (Error msg)
      | Some q \<Rightarrow>
          (case outAmount q of
             None \<Rightarrow> reject (Error msg)
           | Some out \<Rightarrow>
               if out = [] then reject (Error msg)
               else
                 await (settle (bigInt P out))
                   (\<lambda>n. if n \<le> 0 then reject (Error msg) else resolve q)))"

definition buy :: "platform \<Rightarrow> string \<Rightarrow> bool option \<Rightarrow> string promise" where
  "buy P mintOut isNewToken =
     with_env
       (\<lambda>env.
          let config = getConfig P env;
              amountLamports =
                toLamports (parseFloat P (or_default (Some (BUY_AMOUNT_SOL config)) ''0'')) None
          in await (settle (getWallet P env))
               (\<lambda>wal.
                  await
                    (case newPublicKey P mintOut of
                       Inl _ \<Rightarrow> reject (Error (''Invalid token mint address: '' @ mintOut))
                     | Inr _ \<Rightarrow> resolve ())
                    (\<lambda>_.
                       let params =
                             \<lparr> inputMint = SOL_MINT,
                               outputMint = mintOut,
                               amount = amountLamports,
                               slippageBps =
                                 calculateSlippage P env
                                   (Some (case isNewToken of
                                            Some b \<Rightarrow> b
                                          | None \<Rightarrow> NEW_TOKEN_MODE config = ''true'')) \<rparr>
                       in try_catch
                            (await (quoteGet P params)
                               (\<lambda>quote.
                                  await
                                    (checked_quote P
                                       ''Invalid quote received - possible insufficient liquidity''
                                       quote)
                                    (\<lambda>q.
                                       executeSwapSafely P
                                         (newConnection P (RPC_ENDPOINT config)) q wal None)))
                            (\<lambda>error. reject error))))"

definition sell :: "platform \<Rightarrow> string \<Rightarrow> real \<Rightarrow> bool option \<Rightarrow> string promise" where
  "sell P mintIn amt isNewToken =
     with_env
       (\<lambda>env.
          let config = getConfig P env
          in await (settle (getWallet P env))
               (\<lambda>wal.
                  let conn = newConnection P (RPC_ENDPOINT config)
                  in await (settle (newPublicKey P mintIn))
                       (\<lambda>mint.
                          await (getTokenDecimals conn mint)
                            (\<lambda>decs.
                               let params =
                                     \<lparr> inputMint = mintIn,
                                       outputMint = SOL_MINT,
                                       amount = toLamports amt (Some decs),
                                       slippageBps =
                                         calculateSlippage P env
                                           (Some (case isNewToken of
                                                    Some b \<Rightarrow> b
                                                  | None \<Rightarrow> NEW_TOKEN_MODE config = ''true'')) \<rparr>
                               in try_catch
                                    (await (quoteGet P params)
                                       (\<lambda>quote.
                                          await
                                            (checked_quote P
                                               ''Invalid sell quote received - possible insufficient liquidity''
                                               quote)
                                            (\<lambda>q. executeSwapSafely P conn q wal None)))
                                    (\<lambda>error. reject error)))))"

text \<open>
  The \<open>for\<close> loop of \<open>withRetry\<close> and the \<open>throw\<close> after it; \<open>lastError\<close> starts
  \<open>undefined\<close>.
\<close>

function withRetry_loop ::
  "'a promise \<Rightarrow> string \<Rightarrow> nat \<Rightarrow> nat \<Rightarrow> bool \<Rightarrow> nat \<Rightarrow> error option \<Rightarrow> 'a promise" where
  "withRetry_loop fn operationName maxRetries initialDelay useExponentialBackoff attempt
       lastError w =
     (if attempt \<le> maxRetries then
        (let delayMs =
               (if useExponentialBackoff then initialDelay * 2 ^ (attempt - 1)
                else initialDelay)
         in case fn w of
              (Inr result, w1) \<Rightarrow> (Inr result, w1)
            | (Inl error, w1) \<Rightarrow>
                (let willRetry = attempt < maxRetries
                 in withRetry_loop fn operationName maxRetries initialDelay
                      useExponentialBackoff (attempt + 1) (Some error)
                      (if willRetry then snd (setTimeout_promise delayMs w1) else w1)))
      else
        (Inl (case lastError of
                Some e \<Rightarrow> e
              | None \<Rightarrow> Error (operationName @ '' failed with unknown error'')), w))"
  by pat_completeness auto
termination
  by (relation "measure (\<lambda>(fn, operationName, maxRetries, initialDelay,
        useExponentialBackoff, attempt, lastError, w). maxRetries + 1 - attempt)") auto

definition withRetry ::
  "'a promise \<Rightarrow> string option \<Rightarrow> nat option \<Rightarrow> nat option \<Rightarrow> bool option \<Rightarrow> 'a promise" where
  "withRetry fn operationName maxRetries initialDelay useExponentialBackoff =
     withRetry_loop fn
       (case operationName of None \<Rightarrow> ''Operation'' | Some n \<Rightarrow> n)
       (case maxRetries of None \<Rightarrow> 3 | Some n \<Rightarrow> n)
       (case initialDelay of None \<Rightarrow> 1000 | Some d \<Rightarrow> d)
       (case useExponentialBackoff of None \<Rightarrow> True | Some b \<Rightarrow> b)
       1 None"

text \<open>\<open>v ? parseInt(v) : d\<close> on an optional setting, used as a count or a duration.\<close>

definition parsed_or :: "platform \<Rightarrow> string option \<Rightarrow> nat \<Rightarrow> nat" where
  "parsed_or P v d =
     (case v of None \<Rightarrow> d | Some s \<Rightarrow> if s = [] then d else nat (parseInt P s))"

definition buyAndSellFlow :: "platform \<Rightarrow> string \<Rightarrow> real option \<Rightarrow> unit promise" where
  "buyAndSellFlow P tokenMint buyAmountSOL =
     try_catch
       (with_env
          (\<lambda>env.
             await (settle (getWallet P env))
               (\<lambda>wal.
                  let config = getConfig P env;
                      conn = newConnection P (RPC_ENDPOINT config);
                      isNewToken = (NEW_TOKEN_MODE config = ''true'');
                      originalBuyAmount = BUY_AMOUNT_SOL config
                  in await
                       (case buyAmountSOL of
                          None \<Rightarrow> resolve ()
                        | Some a \<Rightarrow> set_env ''BUY_AMOUNT_SOL'' (numberToString P a))
                       (\<lambda>_.
                          await
                            (try_catch
                               (withRetry (buy P tokenMint (Some isNewToken))
                                  (Some ''TokenPurchase'') (Some 3) (Some 1000) None)
                               (\<lambda>error. reject error))
                            (\<lambda>buyTx.
                               await
                                 (case buyAmountSOL of
                                    None \<Rightarrow> resolve ()
                                  | Some a \<Rightarrow> set_env ''BUY_AMOUNT_SOL'' originalBuyAmount)
                                 (\<lambda>_.
                                    let retryCount = parsed_or P (BALANCE_RETRY_COUNT config) 5;
                                        retryDelay =
                                          parsed_or P (BALANCE_RETRY_DELAY_MS config) 2000
                                    in await
                                         (waitForBalanceChange P conn wal tokenMint
                                            (Some retryCount) (Some retryDelay))
                                         (\<lambda>purchasedAmount.
                                            let sellDelaySeconds =
                                                  parsed_or P (SELL_DELAY_SECONDS config) 60
                                            in await (delay (sellDelaySeconds * 1000))
                                                 (\<lambda>_.
                                                    await
                                                      (try_catch
                                                         (withRetry
                                                            (safeSellAndClose P conn tokenMint wal
                                                               (Some isNewToken))
                                                            (Some ''TokenSell'') (Some 5)
                                                            (Some 1000) (Some True))
                                                         (\<lambda>error. reject error))
                                                      (\<lambda>sellTx. resolve ())))))))))
       (\<lambda>error. reject error)"

section \<open>Observing a run\<close>

text \<open>The remote calls and timers a run added to the trace.\<close>

definition new_events :: "world \<Rightarrow> world \<Rightarrow> event list" where
  "new_events w w' = drop (length (trace w)) (trace w')"

text \<open>
  What the polling loop added: the events after the broadcast and the first block-height read.
\<close>

definition polling_events :: "world \<Rightarrow> world \<Rightarrow> event list" where
  "polling_events w w' = drop 2 (new_events w w')"

fun is_broadcast :: "event \<Rightarrow> bool" where
  "is_broadcast (SendRawTransaction tx r) = True"
| "is_broadcast ev = False"

text \<open>
  An event after which the polling loop goes on: a failed or empty poll, a failed height
  read, a height within the validity window, a timer.
\<close>

fun inconclusive :: "nat \<Rightarrow> event \<Rightarrow> bool" where
  "inconclusive lv (GetTransaction s r) =
     (case r of Inl e \<Rightarrow> True | Inr None \<Rightarrow> True | Inr (Some x) \<Rightarrow> False)"
| "inconclusive lv (GetBlockHeight r) = (case r of Inl e \<Rightarrow> True | Inr h \<Rightarrow> h \<le> lv)"
| "inconclusive lv (SetTimeout ms) = True"
| "inconclusive lv ev = False"

text \<open>
  The shape of a run of the polling loop: inconclusive events, closed by a confirmation, by
  an expiry, or by the clock reaching the deadline.
\<close>

definition polling_run ::
  "nat \<Rightarrow> string \<Rightarrow> nat \<Rightarrow> versioned_transaction_response option \<Rightarrow> event list
     \<Rightarrow> (error + versioned_transaction_response option) \<Rightarrow> nat \<Rightarrow> bool" where
  "polling_run lv sig tAt resp evs r t =
     (list_all (inconclusive lv) (butlast evs) \<and>
      ((\<exists>response. r = Inr (Some response) \<and> evs \<noteq> []
            \<and> last evs = GetTransaction sig (Inr (Some response)) \<and> t < tAt)
       \<or> (\<exists>h. r = Inr None \<and> evs \<noteq> [] \<and> last evs = GetBlockHeight (Inr h) \<and> lv < h \<and> t < tAt)
       \<or> ((r = Inr resp \<or> r = Inr None) \<and> list_all (inconclusive lv) evs \<and> tAt \<le> t)))"

fun is_polling_event :: "event \<Rightarrow> bool" where
  "is_polling_event (GetTransaction s r) = True"
| "is_polling_event (GetBlockHeight r) = True"
| "is_polling_event (SetTimeout ms) = True"
| "is_polling_event ev = False"

text \<open>The events and the settlement of a run of the sender.\<close>

definition sender_shape ::
  "string \<Rightarrow> nat \<Rightarrow> nat \<Rightarrow> event list \<Rightarrow> (error + versioned_transaction_response option) \<Rightarrow> nat \<Rightarrow> bool" where
  "sender_shape tx lv tAt evs r t =
    ((\<exists>e. r = Inl e \<and> evs = [SendRawTransaction tx (Inl e)]) \<or>
     (\<exists>e s. r = Inl e \<and> evs = [SendRawTransaction tx (Inr s), GetBlockHeight (Inl e)]) \<or>
     (\<exists>s h0 pevs. evs = SendRawTransaction tx (Inr s) # GetBlockHeight (Inr h0) # pevs
         \<and> polling_run lv s tAt None pevs r t))"

text \<open>What \<open>executeSwap\<close> makes of the sender's answer, and the shape of its runs.\<close>

definition swap_outcome ::
  "string \<Rightarrow> (error + versioned_transaction_response option) \<Rightarrow> error + string" where
  "swap_outcome signature r0 =
     (case r0 of
        Inl e \<Rightarrow> Inl e
      | Inr None \<Rightarrow> Inl (Error ''Transaction not confirmed'')
      | Inr (Some response) \<Rightarrow>
          if tx_failed response then Inl (Error ''Transaction failed'') else Inr signature)"

definition swap_shape :: "event list \<Rightarrow> (error + string) \<Rightarrow> bool" where
  "swap_shape evs r =
    ((\<exists>e. r = Inl e \<and> evs = []) \<or>
     (\<exists>tx e. r = Inl e \<and> evs = [SimulateTransaction tx ''processed'' (Inl e)]) \<or>
     (\<exists>tx sim. sim_err sim \<noteq> None \<and> r = Inl (Error ''Transaction simulation failed'')
         \<and> evs = [SimulateTransaction tx ''processed'' (Inr sim)]) \<or>
     (\<exists>tx sim sevs stx lv tAt r0 t signature. sim_err sim = None
         \<and> evs = SimulateTransaction tx ''processed'' (Inr sim) # sevs
         \<and> sender_shape stx lv tAt sevs r0 t \<and> r = swap_outcome signature r0))"

text \<open>
  The world after the first \<open>k\<close> attempts of an operation have failed and each has been
  followed by its exponential back-off wait, \<open>initialDelay * 2^(attempt - 1)\<close> ms after
  the attempt numbered \<open>attempt\<close>.
\<close>

fun after_failures :: "'a promise \<Rightarrow> nat \<Rightarrow> nat \<Rightarrow> world \<Rightarrow> world" where
  "after_failures fn initialDelay 0 w = w"
| "after_failures fn initialDelay (Suc k) w =
     snd (setTimeout_promise (initialDelay * 2 ^ k)
            (snd (fn (after_failures fn initialDelay k w))))"

text \<open>The world after \<open>k\<close> further balance samples, each taken after one wait.\<close>

fun resampled ::
  "platform \<Rightarrow> connection \<Rightarrow> wallet \<Rightarrow> string \<Rightarrow> nat \<Rightarrow> nat \<Rightarrow> world \<Rightarrow> world" where
  "resampled P conn wal tokenMint delayMs 0 w = w"
| "resampled P conn wal tokenMint delayMs (Suc k) w =
     resampled P conn wal tokenMint delayMs k
       (snd (getTokenBalance P conn wal tokenMint (snd (delay delayMs w))))"

fun is_balance_read :: "event \<Rightarrow> bool" where
  "is_balance_read (GetBalance owner r) = True"
| "is_balance_read (GetTokenAccountBalance account r) = True"
| "is_balance_read ev = False"

text \<open>An async function that leaves \<open>process.env\<close> as it found it.\<close>

definition keeps_env :: "'a promise \<Rightarrow> bool" where
  "keeps_env m = (\<forall>w. process_env (snd (m w)) = process_env w)"

section \<open>Test doubles\<close>

text \<open>
  Concrete collaborators for running the model: a decimal \<open>parseInt\<close>, codecs that accept
  everything, a ledger and a quoting service with fixed answers.
\<close>

definition digits_value :: "string \<Rightarrow> int" where
  "digits_value s = foldl (\<lambda>acc c. 10 * acc + (int (of_char c) - 48)) 0 s"

definition demo_connection ::
  "(error + versioned_transaction_response option) \<Rightarrow> (error + nat) \<Rightarrow> transaction_error option
     \<Rightarrow> (error + real option) \<Rightarrow> connection" where
  "demo_connection polled height simulated held =
     \<lparr> rpc_sendRawTransaction = (\<lambda>w tx. Inr ''sig1''),
       rpc_getBlockHeight = (\<lambda>w. height),
       rpc_getTransaction = (\<lambda>w sig. polled),
       rpc_simulateTransaction = (\<lambda>w tx commitment. Inr \<lparr> sim_err = simulated, sim_logs = None \<rparr>),
       rpc_getBalance = (\<lambda>w owner. Inr 0),
       rpc_getTokenAccountBalance = (\<lambda>w account. held),
       rpc_getParsedAccountInfo = (\<lambda>w account. Inr (Some \<lparr> decimals = Some 6 \<rparr>)) \<rparr>"

definition demo_platform :: "connection \<Rightarrow> (error + quote_response option) \<Rightarrow> platform" where
  "demo_platform conn quoted =
     \<lparr> parseInt = digits_value,
       parseFloat = (\<lambda>s. if s = ''0.5'' then 1 / 2 else real_of_int (digits_value s)),
       numberToString = (\<lambda>x. if x = 1 / 2 then ''0.5'' else if x = 0 then ''0'' else ''1''),
       bigInt = (\<lambda>s. Inr (digits_value s)),
       newPublicKey = (\<lambda>s. Inr s),
       keypairFromSecretKey = (\<lambda>k. Inr \<lparr> publicKey = ''owner'', payer = k \<rparr>),
       associatedTokenAddress = (\<lambda>mint owner. Inr (mint @ owner)),
       deserialize =
         (\<lambda>s. Inr \<lparr> recentBlockhash = ''hash'', signatures = [], message_bytes = s \<rparr>),
       sign = (\<lambda>tx wal. Inr (tx\<lparr> signatures := [''sig1''] \<rparr>)),
       serialize = message_bytes,
       newConnection = (\<lambda>url. conn),
       jup_quoteGet = (\<lambda>w params. quoted),
       jup_swapPost =
         (\<lambda>w req. Inr \<lparr> swapTransaction = ''tx'', swap_lastValidBlockHeight = 100 \<rparr>) \<rparr>"

definition quiet_connection :: connection where
  "quiet_connection = demo_connection (Inr None) (Inr 0) None (Inr None)"

definition quiet_platform :: platform where
  "quiet_platform = demo_platform quiet_connection (Inr None)"

definition low_max_env :: "string \<Rightarrow> string option" where
  "low_max_env = Map.empty(''MAX_SLIPPAGE_BPS'' \<mapsto> ''500'')"

definition initial_world :: world where
  "initial_world = \<lparr> clock = 0, process_env = Map.empty, trace = [] \<rparr>"

definition demo_params :: "connection \<Rightarrow> sender_params" where
  "demo_params conn =
     \<lparr> connection = conn, serializedTransaction = ''tx'',
       blockhashWithExpiryBlockHeight = \<lparr> blockhash = ''hash'', lastValidBlockHeight = 100 \<rparr>,
       timeoutIn = None \<rparr>"

text \<open>A ledger that never finds the transaction and is already at height 101.\<close>

definition expired_connection :: connection where
  "expired_connection = demo_connection (Inr None) (Inr 101) None (Inr None)"

definition expired_world :: world where
  "expired_world =
     \<lparr> clock = 0, process_env = Map.empty,
       trace = [SendRawTransaction ''tx'' (Inr ''sig1''), GetBlockHeight (Inr 101),
                GetTransaction ''sig1'' (Inr None), GetBlockHeight (Inr 101)] \<rparr>"

definition demo_wallet :: wallet where
  "demo_wallet = \<lparr> publicKey = ''owner'', payer = ''key'' \<rparr>"

definition demo_swap_response :: swap_response where
  "demo_swap_response = \<lparr> swapTransaction = ''tx'', swap_lastValidBlockHeight = 100 \<rparr>"

definition signed_tx :: versioned_transaction where
  "signed_tx = \<lparr> recentBlockhash = ''hash'', signatures = [''sig1''], message_bytes = ''tx'' \<rparr>"

text \<open>A ledger whose simulation reports an error.\<close>

definition rejected_connection :: connection where
  "rejected_connection =
     demo_connection (Inr None) (Inr 0) (Some (TransactionError ''InstructionError'')) (Inr None)"

definition rejected_simulation :: event where
  "rejected_simulation =
     SimulateTransaction signed_tx ''processed''
       (Inr \<lparr> sim_err = Some (TransactionError ''InstructionError''), sim_logs = None \<rparr>)"

text \<open>A ledger on which the transaction is confirmed with an execution error.\<close>

definition reverted_response :: versioned_transaction_response where
  "reverted_response = \<lparr> meta = Some \<lparr> err = Some (TransactionError ''InstructionError'') \<rparr> \<rparr>"

definition reverted_connection :: connection where
  "reverted_connection = demo_connection (Inr (Some reverted_response)) (Inr 0) None (Inr None)"

definition reverted_events :: "event list" where
  "reverted_events =
     [SendRawTransaction ''tx'' (Inr ''sig1''), GetBlockHeight (Inr 0),
      GetTransaction ''sig1'' (Inr (Some reverted_response))]"

definition passed_simulation :: event where
  "passed_simulation =
     SimulateTransaction signed_tx ''processed'' (Inr \<lparr> sim_err = None, sim_logs = None \<rparr>)"

text \<open>A ledger whose block-height request always fails.\<close>

definition down_connection :: connection where
  "down_connection = demo_connection (Inr None) (Inl (Error ''unreachable'')) None (Inr None)"

definition exhausted_world :: world where
  "exhausted_world =
     \<lparr> clock = 3000, process_env = Map.empty,
       trace = [GetBlockHeight (Inl (Error ''unreachable'')), SetTimeout 1000,
                GetBlockHeight (Inl (Error ''unreachable'')), SetTimeout 2000,
                GetBlockHeight (Inl (Error ''unreachable''))] \<rparr>"

definition unchanged_world :: world where
  "unchanged_world =
     \<lparr> clock = 10000, process_env = Map.empty,
       trace = [GetTokenAccountBalance ''mintowner'' (Inr None), SetTimeout 2000,
                GetTokenAccountBalance ''mintowner'' (Inr None), SetTimeout 2000,
                GetTokenAccountBalance ''mintowner'' (Inr None), SetTimeout 2000,
                GetTokenAccountBalance ''mintowner'' (Inr None), SetTimeout 2000,
                GetTokenAccountBalance ''mintowner'' (Inr None), SetTimeout 2000,
                GetTokenAccountBalance ''mintowner'' (Inr None)] \<rparr>"

text \<open>A ledger whose token-balance request fails with a transient error.\<close>

definition flaky_connection :: connection where
  "flaky_connection = demo_connection (Inr None) (Inr 0) None (Inl (Error ''fetch failed''))"

definition flaky_platform :: platform where
  "flaky_platform = demo_platform flaky_connection (Inr None)"

text \<open>
  A process with a key and a configured buy amount of 1 SOL; a ledger on which the wallet
  holds 0.5 tokens and every transaction lands without error; a quoting service that offers
  0 lamports for them.
\<close>

definition funded_world :: world where
  "funded_world =
     \<lparr> clock = 0,
       process_env = [''PRIVATE_KEY'' \<mapsto> ''key'', ''BUY_AMOUNT_SOL'' \<mapsto> ''1''],
       trace = [] \<rparr>"

definition landed_response :: versioned_transaction_response where
  "landed_response = \<lparr> meta = Some \<lparr> err = None \<rparr> \<rparr>"

definition landed_connection :: connection where
  "landed_connection =
     demo_connection (Inr (Some landed_response)) (Inr 0) None (Inr (Some (1 / 2)))"

text \<open>A ledger already at height 101 on which the transaction has landed.\<close>

definition late_landed_connection :: connection where
  "late_landed_connection = demo_connection (Inr (Some landed_response)) (Inr 101) None (Inr None)"

definition worthless_quote :: quote_response where
  "worthless_quote =
     \<lparr> quote_inputMint = ''mint'', inAmount = ''500000'', quote_outputMint = SOL_MINT,
       outAmount = Some ''0'', priceImpactPct = ''0'' \<rparr>"

definition worthless_platform :: platform where
  "worthless_platform = demo_platform landed_connection (Inr (Some worthless_quote))"

definition swap_events :: "event list" where
  "swap_events =
     [SwapPost
        \<lparr> quoteResponse = worthless_quote, userPublicKey = ''owner'',
          dynamicComputeUnitLimit = True, dynamicSlippage = False, asLegacyTransaction = False,
          wrapAndUnwrapSol = True, maxLamports = 10000000, priorityLevel = ''veryHigh'',
          computeUnitLimit = None, computeUnitPriceMicroLamports = None \<rparr>
        (Inr \<lparr> swapTransaction = ''tx'', swap_lastValidBlockHeight = 100 \<rparr>),
      SimulateTransaction signed_tx ''confirmed'' (Inr \<lparr> sim_err = None, sim_logs = None \<rparr>),
      passed_simulation,
      SendRawTransaction ''tx'' (Inr ''sig1''),
      GetBlockHeight (Inr 0),
      GetTransaction ''sig1'' (Inr (Some landed_response))]"

definition sold_events :: "event list" where
  "sold_events =
     [GetTokenAccountBalance ''mintowner'' (Inr (Some (1 / 2))),
      GetParsedAccountInfo ''mint'' (Inr (Some \<lparr> decimals = Some 6 \<rparr>)),
      QuoteGet \<lparr> inputMint = ''mint'', outputMint = SOL_MINT, amount = 500000, slippageBps = 100 \<rparr>
        (Inr (Some worthless_quote))] @ swap_events"

text \<open>The quote request of a buy of 0.5 SOL that finds no route, and the overridden environment.\<close>

definition no_route_quote :: event where
  "no_route_quote =
     QuoteGet \<lparr> inputMint = SOL_MINT, outputMint = ''mint'', amount = 500000000,
                slippageBps = 100 \<rparr> (Inr None)"

definition overridden_env :: "string \<Rightarrow> string option" where
  "overridden_env = [''PRIVATE_KEY'' \<mapsto> ''key'', ''BUY_AMOUNT_SOL'' \<mapsto> ''0.5'']"

section \<open>Slippage policy: the new-token clamp\<close>

text \<open>
  C4, as stated, at a configuration whose lower bound lies above its upper bound:
  \<open>MAX_SLIPPAGE_BPS=500\<close> with the other settings at their defaults (base 200, multiplier
  5, minimum 1000).  The code clamps from above first and from below last, so it answers the
  minimum, 1000, where lower-clamp-then-upper-clamp gives the maximum, 500; the product 1000
  exceeds the maximum and the result is not the maximum.
\<close>

theorem calculateSlippage_min_above_max_counterexample:
  "calculateSlippage quiet_platform low_max_env (Some True) = 1000
   \<and> min (max (BASE_SLIPPAGE_BPS (getConfig quiet_platform low_max_env)
               * NEW_TOKEN_SLIPPAGE_MULTIPLIER (getConfig quiet_platform low_max_env))
             (MIN_SLIPPAGE_BPS (getConfig quiet_platform low_max_env)))
        (MAX_SLIPPAGE_BPS (getConfig quiet_platform low_max_env)) = 500
   \<and> calculateSlippage quiet_platform low_max_env (Some True)
       \<noteq> min (max (BASE_SLIPPAGE_BPS (getConfig quiet_platform low_max_env)
                   * NEW_TOKEN_SLIPPAGE_MULTIPLIER (getConfig quiet_platform low_max_env))
                 (MIN_SLIPPAGE_BPS (getConfig quiet_platform low_max_env)))
            (MAX_SLIPPAGE_BPS (getConfig quiet_platform low_max_env))"
  by (simp add: calculateSlippage_def getConfig_def or_default_def quiet_platform_def
        demo_platform_def digits_value_def low_max_env_def)

text \<open>
  C4, amended: in new-token mode \<open>calculateSlippage\<close> is the product of base slippage and
  multiplier clamped from above by \<open>MAX_SLIPPAGE_BPS\<close> and then from below by
  \<open>MIN_SLIPPAGE_BPS\<close>.  Whenever the minimum does not exceed the maximum this is the
  standard clamp \<open>min (max product MIN) MAX\<close>: the maximum when the product exceeds it, the
  minimum when the product is below it, and the product itself otherwise.
\<close>

theorem calculateSlippage_new_token_clamp:
  fixes P :: platform and env :: "string \<Rightarrow> string option"
  defines "c \<equiv> getConfig P env"
  defines "product \<equiv> BASE_SLIPPAGE_BPS c * NEW_TOKEN_SLIPPAGE_MULTIPLIER c"
  shows "calculateSlippage P env (Some True)
           = max (min product (MAX_SLIPPAGE_BPS c)) (MIN_SLIPPAGE_BPS c)
         \<and> (MIN_SLIPPAGE_BPS c \<le> MAX_SLIPPAGE_BPS c \<longrightarrow>
              calculateSlippage P env (Some True)
                = min (max product (MIN_SLIPPAGE_BPS c)) (MAX_SLIPPAGE_BPS c)
              \<and> (product > MAX_SLIPPAGE_BPS c \<longrightarrow>
                   calculateSlippage P env (Some True) = MAX_SLIPPAGE_BPS c)
              \<and> (product < MIN_SLIPPAGE_BPS c \<longrightarrow>
                   calculateSlippage P env (Some True) = MIN_SLIPPAGE_BPS c)
              \<and> (MIN_SLIPPAGE_BPS c \<le> product \<and> product \<le> MAX_SLIPPAGE_BPS c \<longrightarrow>
                   calculateSlippage P env (Some True) = product))"
proof -
  have eq: "calculateSlippage P env (Some True)
              = max (min product (MAX_SLIPPAGE_BPS c)) (MIN_SLIPPAGE_BPS c)"
    by (simp add: calculateSlippage_def Let_def c_def product_def)
  show ?thesis
    unfolding eq by auto
qed

text \<open>
  The amended C4 at the default configuration (nothing set): bounds 1000 and 5000, product
  \<open>200 * 5 = 1000\<close>, result 1000.
\<close>

theorem calculateSlippage_new_token_clamp_witness:
  "MIN_SLIPPAGE_BPS (getConfig quiet_platform Map.empty)
     \<le> MAX_SLIPPAGE_BPS (getConfig quiet_platform Map.empty)
   \<and> MIN_SLIPPAGE_BPS (getConfig quiet_platform Map.empty)
       \<le> BASE_SLIPPAGE_BPS (getConfig quiet_platform Map.empty)
           * NEW_TOKEN_SLIPPAGE_MULTIPLIER (getConfig quiet_platform Map.empty)
   \<and> BASE_SLIPPAGE_BPS (getConfig quiet_platform Map.empty)
           * NEW_TOKEN_SLIPPAGE_MULTIPLIER (getConfig quiet_platform Map.empty)
       \<le> MAX_SLIPPAGE_BPS (getConfig quiet_platform Map.empty)
   \<and> calculateSlippage quiet_platform Map.empty (Some True) = 1000"
  using calculateSlippage_new_token_clamp [of quiet_platform Map.empty]
  by (simp add: getConfig_def or_default_def quiet_platform_def demo_platform_def
        digits_value_def)

section \<open>Transaction sender: the shape of a run\<close>

lemma list_all_butlast_append:
  "list_all Q xs \<Longrightarrow> list_all Q (butlast ys) \<Longrightarrow> list_all Q (butlast (xs @ ys))"
  by (cases "ys = []") (auto simp: butlast_append list_all_iff dest: in_set_butlastD)

lemma polling_run_step:
  assumes "polling_run lv sig tAt resp' evs r t" and "list_all (inconclusive lv) pre"
    and "resp' = resp \<or> resp' = None"
  shows "polling_run lv sig tAt resp (pre @ evs) r t"
  using assms unfolding polling_run_def
  by (auto simp: list_all_butlast_append)

lemma confirmation_loop_run:
  "confirmation_loop conn sig lv tAt resp w = (r, w') \<Longrightarrow>
     \<exists>evs. trace w' = trace w @ evs \<and> process_env w' = process_env w
       \<and> polling_run lv sig tAt resp evs r (clock w')"
proof (induction conn sig lv tAt resp w rule: confirmation_loop.induct)
  case (1 conn sig lv tAt resp w)
  show ?case
  proof (cases "clock w < tAt")
    case False
    with "1.prems" show ?thesis
      by (simp add: polling_run_def)
  next
    case True
    note live = this
    obtain a w1 where g: "getTransaction conn sig w = (a, w1)"
      by (cases "getTransaction conn sig w")
    then have w1: "w1 = w\<lparr>trace := trace w @ [GetTransaction sig a]\<rparr>"
      by (auto simp: getTransaction_def Let_def)
    show ?thesis
    proof (cases a)
      case (Inl e)
      let ?w2 = "snd (wait 2000 w1)"
      from "1.prems" live g Inl
      have run: "confirmation_loop conn sig lv tAt resp ?w2 = (r, w')"
        by simp
      from "1.IH"(1)[OF live g[symmetric] Inl run]
      obtain evs where evs: "trace w' = trace ?w2 @ evs" "process_env w' = process_env ?w2"
        "polling_run lv sig tAt resp evs r (clock w')"
        by blast
      have "polling_run lv sig tAt resp ([GetTransaction sig a, SetTimeout 2000] @ evs) r (clock w')"
        by (rule polling_run_step[OF evs(3)]) (simp_all add: Inl)
      with evs w1 show ?thesis
        by (simp add: wait_def setTimeout_promise_def)
    next
      case (Inr found)
      show ?thesis
      proof (cases found)
        case (Some response)
        with "1.prems" live g Inr w1 show ?thesis
          by (auto simp: polling_run_def)
      next
        case None
        obtain b w2 where h: "getBlockHeight conn w1 = (b, w2)"
          by (cases "getBlockHeight conn w1")
        then have w2: "w2 = w1\<lparr>trace := trace w1 @ [GetBlockHeight b]\<rparr>"
          by (auto simp: getBlockHeight_def Let_def)
        let ?w3 = "snd (wait 2000 w2)"
        show ?thesis
        proof (cases b)
          case (Inl e)
          from "1.prems" live g Inr None h Inl
          have run: "confirmation_loop conn sig lv tAt None ?w3 = (r, w')"
            by simp
          from "1.IH"(2)[OF live g[symmetric] Inr None h[symmetric] Inl run]
          obtain evs where evs: "trace w' = trace ?w3 @ evs" "process_env w' = process_env ?w3"
            "polling_run lv sig tAt None evs r (clock w')"
            by blast
          have "polling_run lv sig tAt resp
                  ([GetTransaction sig a, GetBlockHeight b, SetTimeout 2000] @ evs) r (clock w')"
            by (rule polling_run_step[OF evs(3)]) (simp_all add: Inl Inr None)
          with evs w1 w2 show ?thesis
            by (simp add: wait_def setTimeout_promise_def)
        next
          case (Inr height)
          show ?thesis
          proof (cases "lv < height")
            case True
            with "1.prems" live g \<open>a = Inr found\<close> None h Inr w1 w2 show ?thesis
              by (auto simp: polling_run_def)
          next
            case False
            from "1.prems" live g \<open>a = Inr found\<close> None h Inr False
            have run: "confirmation_loop conn sig lv tAt None ?w3 = (r, w')"
              by simp
            from "1.IH"(3)[OF live g[symmetric] \<open>a = Inr found\<close> None h[symmetric] Inr _ run] False
            obtain evs where evs: "trace w' = trace ?w3 @ evs" "process_env w' = process_env ?w3"
              "polling_run lv sig tAt None evs r (clock w')"
              by auto
            have "polling_run lv sig tAt resp
                    ([GetTransaction sig a, GetBlockHeight b, SetTimeout 2000] @ evs) r (clock w')"
              by (rule polling_run_step[OF evs(3)]) (use False in \<open>simp_all add: Inr \<open>a = Inr found\<close> None\<close>)
            with evs w1 w2 show ?thesis
              by (simp add: wait_def setTimeout_promise_def)
          qed
        qed
      qed
    qed
  qed
qed


lemma new_events_append: "trace w' = trace w @ evs \<Longrightarrow> new_events w w' = evs"
  by (simp add: new_events_def)

lemma sender_run:
  assumes "transactionSenderAndConfirmationWaiter params w = (r, w')"
  shows "\<exists>evs. trace w' = trace w @ evs \<and> process_env w' = process_env w \<and>
           sender_shape (serializedTransaction params)
             (lastValidBlockHeight (blockhashWithExpiryBlockHeight params))
             (clock w + (case timeoutIn params of None \<Rightarrow> 60000 | Some t \<Rightarrow> t)) evs r (clock w')"
proof -
  let ?conn = "connection params"
  let ?tx = "serializedTransaction params"
  obtain a where a: "rpc_sendRawTransaction ?conn w ?tx = a" by simp
  let ?w1 = "w\<lparr>trace := trace w @ [SendRawTransaction ?tx a]\<rparr>"
  have send: "sendRawTransaction ?conn ?tx w = (a, ?w1)"
    by (simp add: sendRawTransaction_def Let_def a)
  show ?thesis
  proof (cases a)
    case (Inl e)
    with assms(1) send show ?thesis
      by (auto simp: transactionSenderAndConfirmationWaiter_def await_def sender_shape_def)
  next
    case (Inr s)
    obtain b where b: "rpc_getBlockHeight ?conn ?w1 = b" by simp
    let ?w2 = "?w1\<lparr>trace := trace ?w1 @ [GetBlockHeight b]\<rparr>"
    have height: "getBlockHeight ?conn ?w1 = (b, ?w2)"
      by (simp add: getBlockHeight_def Let_def b)
    show ?thesis
    proof (cases b)
      case (Inl e)
      with assms(1) send Inr height show ?thesis
        by (auto simp: transactionSenderAndConfirmationWaiter_def await_def sender_shape_def
              Let_def)
    next
      case (Inr h0)
      with assms(1) send \<open>a = Inr s\<close> height
      have "confirmation_loop ?conn s (lastValidBlockHeight (blockhashWithExpiryBlockHeight params))
              (clock w + (case timeoutIn params of None \<Rightarrow> 60000 | Some t \<Rightarrow> t)) None ?w2 = (r, w')"
        by (simp add: transactionSenderAndConfirmationWaiter_def await_def Let_def)
      from confirmation_loop_run[OF this]
      obtain evs where "trace w' = trace ?w2 @ evs" "process_env w' = process_env ?w2"
        "polling_run (lastValidBlockHeight (blockhashWithExpiryBlockHeight params)) s
           (clock w + (case timeoutIn params of None \<Rightarrow> 60000 | Some t \<Rightarrow> t)) None evs r (clock w')"
        by auto
      with Inr \<open>a = Inr s\<close> show ?thesis
        by (simp add: sender_shape_def)
    qed
  qed
qed

lemma conclusive_is_last:
  assumes "list_all Q (butlast evs)" and "ev \<in> set evs" and "\<not> Q ev"
  shows "evs \<noteq> [] \<and> last evs = ev"
proof -
  from assms(2) have ne: "evs \<noteq> []" by auto
  with assms(2) have "ev \<in> set (butlast evs @ [last evs])" by simp
  then have "ev \<in> set (butlast evs) \<or> ev = last evs" by auto
  with assms(1,3) ne show ?thesis unfolding list_all_iff by blast
qed

lemma polling_run_expired:
  assumes "polling_run lv s tAt None evs r t" and "GetBlockHeight (Inr h) \<in> set evs" and "lv < h"
  shows "r = Inr None \<and> evs \<noteq> [] \<and> last evs = GetBlockHeight (Inr h) \<and> t < tAt"
proof -
  have nq: "\<not> inconclusive lv (GetBlockHeight (Inr h))" using assms(3) by simp
  from assms(1) have "list_all (inconclusive lv) (butlast evs)" by (simp add: polling_run_def)
  from conclusive_is_last[OF this assms(2) nq] have l: "evs \<noteq> []" "last evs = GetBlockHeight (Inr h)"
    by simp_all
  moreover have "\<not> list_all (inconclusive lv) evs"
    using assms(2) nq unfolding list_all_iff by blast
  ultimately show ?thesis using assms(1) by (auto simp: polling_run_def)
qed

lemma polling_run_confirmed:
  assumes "polling_run lv s tAt None evs r t" and "GetTransaction s' (Inr (Some response)) \<in> set evs"
  shows "r = Inr (Some response) \<and> evs \<noteq> [] \<and> last evs = GetTransaction s' (Inr (Some response))
         \<and> s' = s \<and> t < tAt"
proof -
  have nq: "\<not> inconclusive lv (GetTransaction s' (Inr (Some response)))" by simp
  from assms(1) have "list_all (inconclusive lv) (butlast evs)" by (simp add: polling_run_def)
  from conclusive_is_last[OF this assms(2) nq]
  have l: "evs \<noteq> []" "last evs = GetTransaction s' (Inr (Some response))"
    by simp_all
  moreover have "\<not> list_all (inconclusive lv) evs"
    using assms(2) nq unfolding list_all_iff by blast
  ultimately show ?thesis using assms(1) by (auto simp: polling_run_def)
qed

lemma inconclusive_not_broadcast: "inconclusive lv ev \<Longrightarrow> \<not> is_broadcast ev"
  by (cases ev) simp_all

lemma polling_run_no_broadcast:
  assumes "polling_run lv s tAt None evs r t"
  shows "filter is_broadcast evs = []"
proof (cases "evs = []")
  case True
  then show ?thesis by simp
next
  case False
  then have split: "evs = butlast evs @ [last evs]" by simp
  from assms have "list_all (inconclusive lv) (butlast evs)" by (simp add: polling_run_def)
  then have front: "filter is_broadcast (butlast evs) = []"
    unfolding list_all_iff filter_empty_conv using inconclusive_not_broadcast by blast
  from assms False have "\<not> is_broadcast (last evs)"
    unfolding polling_run_def list_all_iff
    using inconclusive_not_broadcast[of lv "last evs"] last_in_set[OF False]
    by auto
  with front have "filter is_broadcast (butlast evs @ [last evs]) = []" by simp
  with split show ?thesis by simp
qed

section \<open>Transaction sender: expiry\<close>

text \<open>
  C1: when a block height read during confirmation polling, that is after the broadcast and
  the first height read, exceeds the transaction's \<open>lastValidBlockHeight\<close>, the sender
  returns \<open>null\<close>, that read is the last thing it did (no further poll and no timer), and
  the clock is still short of the deadline, which is 60000 ms after the broadcast by
  default.  The loop reads the height only after a poll that found nothing and leaves at the
  first poll that finds the transaction, so no poll before that read had a non-null answer.
\<close>

theorem expiry_returns_null_immediately:
  assumes run: "transactionSenderAndConfirmationWaiter params w = (r, w')"
    and seen: "GetBlockHeight (Inr h) \<in> set (polling_events w w')"
    and expired: "lastValidBlockHeight (blockhashWithExpiryBlockHeight params) < h"
  shows "r = Inr None \<and> last (trace w') = GetBlockHeight (Inr h)
         \<and> clock w' < clock w + (case timeoutIn params of None \<Rightarrow> 60000 | Some t \<Rightarrow> t)"
proof -
  let ?lv = "lastValidBlockHeight (blockhashWithExpiryBlockHeight params)"
  let ?tAt = "clock w + (case timeoutIn params of None \<Rightarrow> 60000 | Some t \<Rightarrow> t)"
  from sender_run[OF run] obtain all_evs where
    all_evs: "trace w' = trace w @ all_evs"
      "sender_shape (serializedTransaction params) ?lv ?tAt all_evs r (clock w')"
    by blast
  then have ne: "new_events w w' = all_evs" by (simp add: new_events_append)
  with seen all_evs(2) obtain s h0 evs where
    evs: "all_evs = SendRawTransaction (serializedTransaction params) (Inr s)
            # GetBlockHeight (Inr h0) # evs"
      "polling_run ?lv s ?tAt None evs r (clock w')"
    by (auto simp: polling_events_def sender_shape_def)
  from seen ne evs(1) have "GetBlockHeight (Inr h) \<in> set evs" by (simp add: polling_events_def)
  from polling_run_expired[OF evs(2) this expired]
  have *: "r = Inr None" "evs \<noteq> []" "last evs = GetBlockHeight (Inr h)" "clock w' < ?tAt"
    by simp_all
  with all_evs(1) evs(1) show ?thesis by simp
qed

lemma expired_run:
  "transactionSenderAndConfirmationWaiter (demo_params expired_connection) initial_world =
     (Inr None, expired_world)"
  unfolding transactionSenderAndConfirmationWaiter_def
  by (simp add: await_def sendRawTransaction_def getBlockHeight_def getTransaction_def
        demo_params_def expired_connection_def demo_connection_def initial_world_def Let_def
        expired_world_def)

text \<open>
  C1 on a ledger already at height 101 for a transaction valid up to 100: broadcast, first
  height read, one empty poll, one height read, \<open>null\<close> at clock 0.
\<close>

theorem expiry_returns_null_immediately_witness:
  "transactionSenderAndConfirmationWaiter (demo_params expired_connection) initial_world =
     (Inr None, expired_world)
   \<and> GetBlockHeight (Inr 101) \<in> set (polling_events initial_world expired_world)
   \<and> lastValidBlockHeight (blockhashWithExpiryBlockHeight (demo_params expired_connection)) < 101
   \<and> last (trace expired_world) = GetBlockHeight (Inr 101)
   \<and> clock expired_world < clock initial_world + 60000"
proof -
  have seen: "GetBlockHeight (Inr 101) \<in> set (polling_events initial_world expired_world)"
    by (simp add: polling_events_def new_events_def initial_world_def expired_world_def)
  have late: "lastValidBlockHeight (blockhashWithExpiryBlockHeight (demo_params expired_connection))
                < 101"
    by (simp add: demo_params_def)
  have "timeoutIn (demo_params expired_connection) = None"
    by (simp add: demo_params_def)
  with expiry_returns_null_immediately [OF expired_run seen late] expired_run seen late
  show ?thesis by simp
qed

text \<open>
  The height read before the loop is recorded and not compared with
  \<open>lastValidBlockHeight\<close>: on a ledger at height 101 where the transaction, valid up to
  height 100, has landed, the first poll finds it and the sender returns it.
\<close>

lemma first_height_read_is_only_recorded:
  "transactionSenderAndConfirmationWaiter (demo_params late_landed_connection) initial_world =
     (Inr (Some landed_response),
      initial_world
        \<lparr>trace := [SendRawTransaction ''tx'' (Inr ''sig1''), GetBlockHeight (Inr 101),
                   GetTransaction ''sig1'' (Inr (Some landed_response))]\<rparr>)"
  unfolding transactionSenderAndConfirmationWaiter_def
  by (simp add: await_def sendRawTransaction_def getBlockHeight_def getTransaction_def
        demo_params_def late_landed_connection_def demo_connection_def initial_world_def Let_def)

lemma polling_run_events:
  assumes "polling_run lv s tAt None evs r t" and "ev \<in> set evs"
  shows "is_polling_event ev"
proof -
  have inc: "is_polling_event x" if "inconclusive lv x" for x
    using that by (cases x) simp_all
  from assms(2) have ne: "evs \<noteq> []" by auto
  with assms(2) have "ev \<in> set (butlast evs @ [last evs])" by simp
  then consider "ev \<in> set (butlast evs)" | "ev = last evs" by auto
  then show ?thesis
  proof cases
    case 1
    with assms(1) show ?thesis unfolding polling_run_def list_all_iff using inc by blast
  next
    case 2
    with assms(1) ne last_in_set[OF ne] show ?thesis
      unfolding polling_run_def list_all_iff using inc by auto
  qed
qed

lemma sender_shape_broadcast_once:
  assumes "sender_shape tx lv tAt evs r t"
  shows "length (filter is_broadcast evs) = 1"
  using assms polling_run_no_broadcast
  by (auto simp: sender_shape_def)

lemma sender_shape_confirmed:
  assumes "sender_shape tx lv tAt evs r t" and "GetTransaction s (Inr (Some response)) \<in> set evs"
  shows "r = Inr (Some response) \<and> evs \<noteq> [] \<and> last evs = GetTransaction s (Inr (Some response))"
  using assms polling_run_confirmed
  by (fastforce simp: sender_shape_def)

lemma sender_shape_no_simulation:
  assumes "sender_shape tx lv tAt evs r t"
  shows "SimulateTransaction tx' c a \<notin> set evs"
  using assms polling_run_events[where ev = "SimulateTransaction tx' c a"]
  by (auto simp: sender_shape_def)


section \<open>Swap execution: the shape of a run\<close>

lemma executeSwap_run:
  assumes "executeSwap P conn sr wal w = (r, w')"
  shows "\<exists>evs. trace w' = trace w @ evs \<and> process_env w' = process_env w \<and> swap_shape evs r"
proof (cases "deserialize P (swapTransaction sr)")
  case (Inl e)
  with assms show ?thesis
    by (auto simp: executeSwap_def await_def settle_def swap_shape_def)
next
  case des: (Inr unsigned)
  show ?thesis
  proof (cases "sign P unsigned wal")
    case (Inl e)
    with assms des show ?thesis
      by (auto simp: executeSwap_def await_def settle_def swap_shape_def)
  next
    case sg: (Inr tx)
    show ?thesis
    proof (cases "getSignature (VersionedTransaction tx)")
      case (Inl e)
      with assms des sg have "r = Inl e \<and> w' = w"
        by (auto simp: executeSwap_def await_def settle_def simp del: getSignature.simps)
      then show ?thesis
        by (auto simp: swap_shape_def)
    next
      case gs: (Inr signature)
      obtain a where a: "rpc_simulateTransaction conn w tx ''processed'' = a" by simp
      let ?w1 = "w\<lparr>trace := trace w @ [SimulateTransaction tx ''processed'' a]\<rparr>"
      have sim: "simulateTransaction conn tx ''processed'' w = (a, ?w1)"
        by (simp add: simulateTransaction_def Let_def a)
      show ?thesis
      proof (cases a)
        case (Inl e)
        with assms des sg gs sim show ?thesis
          by (auto simp: executeSwap_def await_def settle_def swap_shape_def
                simp del: getSignature.simps)
      next
        case ok: (Inr simulated)
        show ?thesis
        proof (cases "sim_err simulated")
          case (Some bad)
          with assms des sg gs sim ok show ?thesis
            by (auto simp: executeSwap_def await_def settle_def swap_shape_def reject_def
                  simp del: getSignature.simps)
        next
          case None
          let ?params = "\<lparr> connection = conn, serializedTransaction = serialize P tx,
                            blockhashWithExpiryBlockHeight =
                              \<lparr> blockhash = recentBlockhash tx,
                                lastValidBlockHeight = swap_lastValidBlockHeight sr \<rparr>,
                            timeoutIn = None \<rparr>"
          obtain r0 w2 where snd: "transactionSenderAndConfirmationWaiter ?params ?w1 = (r0, w2)"
            by (cases "transactionSenderAndConfirmationWaiter ?params ?w1")
          from assms des sg gs sim ok None snd
          have res: "r = swap_outcome signature r0" "w' = w2"
            by (auto simp: executeSwap_def await_def settle_def swap_outcome_def reject_def
                  resolve_def simp del: getSignature.simps split: sum.splits option.splits if_splits)
          from sender_run[OF snd] obtain sevs where
            sevs: "trace w2 = trace ?w1 @ sevs" "process_env w2 = process_env ?w1"
              "sender_shape (serializedTransaction ?params)
                 (lastValidBlockHeight (blockhashWithExpiryBlockHeight ?params))
                 (clock ?w1 + (case timeoutIn ?params of None \<Rightarrow> 60000 | Some t \<Rightarrow> t))
                 sevs r0 (clock w2)"
            by blast
          have "swap_shape (SimulateTransaction tx ''processed'' (Inr simulated) # sevs) r"
            unfolding swap_shape_def using None sevs(3) res(1) by blast
          with sevs res ok show ?thesis by simp
        qed
      qed
    qed
  qed
qed

section \<open>Swap execution: simulation gate\<close>

text \<open>
  C2: in every run of \<open>executeSwap\<close> whose pre-submission simulation reports an error,
  \<open>executeSwap\<close> rejects with \<open>Transaction simulation failed\<close> and the simulation is the
  only remote call of the run: \<open>sendRawTransaction\<close> is never reached.
\<close>

theorem failed_simulation_is_never_broadcast:
  assumes run: "executeSwap P conn swapResponse wal w = (r, w')"
    and simulated: "SimulateTransaction tx c (Inr sim) \<in> set (new_events w w')"
    and bad: "sim_err sim \<noteq> None"
  shows "r = Inl (Error ''Transaction simulation failed'')
         \<and> new_events w w' = [SimulateTransaction tx c (Inr sim)]
         \<and> filter is_broadcast (new_events w w') = []"
proof -
  from executeSwap_run[OF run] obtain evs where
    evs: "trace w' = trace w @ evs" "swap_shape evs r" by blast
  then have ne: "new_events w w' = evs" by (simp add: new_events_append)
  from evs(2) simulated bad ne sender_shape_no_simulation
  have "r = Inl (Error ''Transaction simulation failed'') \<and> evs = [SimulateTransaction tx c (Inr sim)]"
    unfolding swap_shape_def by auto
  with ne show ?thesis by simp
qed

lemma rejected_run:
  "executeSwap (demo_platform rejected_connection (Inr None)) rejected_connection
     demo_swap_response demo_wallet initial_world =
   (Inl (Error ''Transaction simulation failed''), initial_world\<lparr>trace := [rejected_simulation]\<rparr>)"
  unfolding executeSwap_def
  by (simp add: await_def settle_def reject_def simulateTransaction_def demo_platform_def
        rejected_connection_def demo_connection_def demo_swap_response_def demo_wallet_def
        initial_world_def rejected_simulation_def signed_tx_def Let_def)

text \<open>
  C2 on a ledger whose simulation reports \<open>InstructionError\<close>: \<open>executeSwap\<close> rejects
  and the only remote call of the run is the simulation.
\<close>

theorem failed_simulation_is_never_broadcast_witness:
  "executeSwap (demo_platform rejected_connection (Inr None)) rejected_connection
     demo_swap_response demo_wallet initial_world =
   (Inl (Error ''Transaction simulation failed''), initial_world\<lparr>trace := [rejected_simulation]\<rparr>)
   \<and> rejected_simulation \<in> set (new_events initial_world (initial_world\<lparr>trace := [rejected_simulation]\<rparr>))
   \<and> filter is_broadcast (new_events initial_world (initial_world\<lparr>trace := [rejected_simulation]\<rparr>)) = []"
proof -
  have seen: "SimulateTransaction signed_tx ''processed''
       (Inr \<lparr> sim_err = Some (TransactionError ''InstructionError''), sim_logs = None \<rparr>)
       \<in> set (new_events initial_world (initial_world\<lparr>trace := [rejected_simulation]\<rparr>))"
    by (simp add: new_events_def initial_world_def rejected_simulation_def)
  from failed_simulation_is_never_broadcast [OF rejected_run seen] rejected_run seen
  show ?thesis by (simp add: rejected_simulation_def)
qed

section \<open>Confirmed with an on-chain error\<close>

text \<open>
  C3: when a confirmation poll finds the transaction and its metadata carries an execution
  error, the sender returns that response, the poll is the last thing it did and it
  broadcast exactly once (no retry of its own); \<open>executeSwap\<close>, in a run where that
  happens, rejects with \<open>Transaction failed\<close> instead of returning the signature.
\<close>

theorem confirmed_error_is_definite_failure:
  "(\<forall>params w r w' s response.
      transactionSenderAndConfirmationWaiter params w = (r, w')
      \<and> GetTransaction s (Inr (Some response)) \<in> set (new_events w w') \<and> tx_failed response
      \<longrightarrow> r = Inr (Some response)
          \<and> last (trace w') = GetTransaction s (Inr (Some response))
          \<and> length (filter is_broadcast (new_events w w')) = 1)
   \<and> (\<forall>P conn swapResponse wal w r w' s response.
      executeSwap P conn swapResponse wal w = (r, w')
      \<and> GetTransaction s (Inr (Some response)) \<in> set (new_events w w') \<and> tx_failed response
      \<longrightarrow> r = Inl (Error ''Transaction failed'')
          \<and> last (trace w') = GetTransaction s (Inr (Some response))
          \<and> length (filter is_broadcast (new_events w w')) = 1)"
proof (intro conjI allI impI)
  fix params w r w' s response
  assume h: "transactionSenderAndConfirmationWaiter params w = (r, w')
      \<and> GetTransaction s (Inr (Some response)) \<in> set (new_events w w') \<and> tx_failed response"
  from sender_run[of params w r w'] h obtain evs tx lv tAt where
    evs: "trace w' = trace w @ evs" "sender_shape tx lv tAt evs r (clock w')" by blast
  then have ne: "new_events w w' = evs" by (simp add: new_events_append)
  from h ne have "GetTransaction s (Inr (Some response)) \<in> set evs" by simp
  from sender_shape_confirmed[OF evs(2) this]
  have c: "r = Inr (Some response)" "evs \<noteq> []" "last evs = GetTransaction s (Inr (Some response))"
    by simp_all
  from c evs(1) have l: "last (trace w') = GetTransaction s (Inr (Some response))" by simp
  from c(1) show "r = Inr (Some response)" .
  from l show "last (trace w') = GetTransaction s (Inr (Some response))" .
  from sender_shape_broadcast_once[OF evs(2)] ne
  show "length (filter is_broadcast (new_events w w')) = 1" by simp
next
  fix P conn swapResponse wal w r w' s response
  assume h: "executeSwap P conn swapResponse wal w = (r, w')
      \<and> GetTransaction s (Inr (Some response)) \<in> set (new_events w w') \<and> tx_failed response"
  from executeSwap_run[of P conn swapResponse wal w r w'] h obtain evs where
    evs: "trace w' = trace w @ evs" "swap_shape evs r" by blast
  then have ne: "new_events w w' = evs" by (simp add: new_events_append)
  with h have mem: "GetTransaction s (Inr (Some response)) \<in> set evs" by simp
  with evs(2) obtain tx sim sevs stx lv tAt r0 t signature where
    sh: "evs = SimulateTransaction tx ''processed'' (Inr sim) # sevs"
      "sender_shape stx lv tAt sevs r0 t" "r = swap_outcome signature r0"
    unfolding swap_shape_def by auto
  from mem sh(1) have "GetTransaction s (Inr (Some response)) \<in> set sevs" by simp
  from sender_shape_confirmed[OF sh(2) this]
  have c: "r0 = Inr (Some response)" "sevs \<noteq> []" "last sevs = GetTransaction s (Inr (Some response))"
    by simp_all
  from c(1) sh(3) h show "r = Inl (Error ''Transaction failed'')"
    by (simp add: swap_outcome_def)
  from c sh(1) evs(1) show "last (trace w') = GetTransaction s (Inr (Some response))" by simp
  from sender_shape_broadcast_once[OF sh(2)] ne sh(1)
  show "length (filter is_broadcast (new_events w w')) = 1" by simp
qed


lemma reverted_sender_run:
  "transactionSenderAndConfirmationWaiter (demo_params reverted_connection) initial_world =
     (Inr (Some reverted_response), initial_world\<lparr>trace := reverted_events\<rparr>)"
  unfolding transactionSenderAndConfirmationWaiter_def
  by (simp add: await_def sendRawTransaction_def getBlockHeight_def getTransaction_def
        demo_params_def reverted_connection_def demo_connection_def initial_world_def Let_def
        reverted_events_def)

lemma reverted_swap_run:
  "executeSwap (demo_platform reverted_connection (Inr None)) reverted_connection
     demo_swap_response demo_wallet initial_world =
   (Inl (Error ''Transaction failed''),
    initial_world\<lparr>trace := passed_simulation # reverted_events\<rparr>)"
  unfolding executeSwap_def transactionSenderAndConfirmationWaiter_def
  by (simp add: await_def settle_def reject_def simulateTransaction_def demo_platform_def
        sendRawTransaction_def getBlockHeight_def getTransaction_def tx_failed_def
        reverted_connection_def demo_connection_def demo_swap_response_def demo_wallet_def
        initial_world_def passed_simulation_def signed_tx_def Let_def reverted_events_def
        reverted_response_def)

text \<open>
  C3 on a ledger whose first poll finds the transaction with \<open>meta.err\<close> set: one
  broadcast, one height read, one poll; the sender returns the response and \<open>executeSwap\<close>
  rejects with \<open>Transaction failed\<close>.
\<close>

theorem confirmed_error_is_definite_failure_witness:
  "transactionSenderAndConfirmationWaiter (demo_params reverted_connection) initial_world =
     (Inr (Some reverted_response), initial_world\<lparr>trace := reverted_events\<rparr>)
   \<and> executeSwap (demo_platform reverted_connection (Inr None)) reverted_connection
        demo_swap_response demo_wallet initial_world =
      (Inl (Error ''Transaction failed''),
       initial_world\<lparr>trace := passed_simulation # reverted_events\<rparr>)
   \<and> tx_failed reverted_response
   \<and> GetTransaction ''sig1'' (Inr (Some reverted_response))
        \<in> set (new_events initial_world (initial_world\<lparr>trace := reverted_events\<rparr>))
   \<and> GetTransaction ''sig1'' (Inr (Some reverted_response))
        \<in> set (new_events initial_world (initial_world\<lparr>trace := passed_simulation # reverted_events\<rparr>))
   \<and> length (filter is_broadcast
        (new_events initial_world (initial_world\<lparr>trace := passed_simulation # reverted_events\<rparr>))) = 1"
proof -
  have failed: "tx_failed reverted_response"
    by (simp add: tx_failed_def reverted_response_def)
  have seen1: "GetTransaction ''sig1'' (Inr (Some reverted_response))
        \<in> set (new_events initial_world (initial_world\<lparr>trace := reverted_events\<rparr>))"
    by (simp add: new_events_def initial_world_def reverted_events_def)
  have seen2: "GetTransaction ''sig1'' (Inr (Some reverted_response))
        \<in> set (new_events initial_world (initial_world\<lparr>trace := passed_simulation # reverted_events\<rparr>))"
    by (simp add: new_events_def initial_world_def reverted_events_def)
  from confirmed_error_is_definite_failure reverted_swap_run seen2 failed
  have "length (filter is_broadcast
        (new_events initial_world (initial_world\<lparr>trace := passed_simulation # reverted_events\<rparr>))) = 1"
    by blast
  with reverted_sender_run reverted_swap_run failed seen1 seen2 show ?thesis by simp
qed


section \<open>Retry orchestration\<close>

declare withRetry_loop.simps [simp del]

lemma withRetry_loop_exhausted:
  "maxRetries < attempt \<Longrightarrow>
     withRetry_loop fn name maxRetries d b attempt (Some e) w = (Inl e, w)"
  by (subst withRetry_loop.simps) simp

lemma withRetry_loop_failed_attempt:
  assumes "attempt \<le> maxRetries" and "fn w = (Inl e, w1)"
  shows "withRetry_loop fn name maxRetries d True attempt le w =
           withRetry_loop fn name maxRetries d True (attempt + 1) (Some e)
             (if attempt < maxRetries then snd (setTimeout_promise (d * 2 ^ (attempt - 1)) w1)
              else w1)"
  by (subst withRetry_loop.simps) (simp add: assms Let_def)

lemma withRetry_loop_fails:
  assumes fails: "\<forall>k<n. \<exists>e. fst (fn (after_failures fn d k w)) = Inl e"
    and "1 \<le> a" and "a \<le> n"
  shows "withRetry_loop fn name n d True a le (after_failures fn d (a - 1) w)
           = fn (after_failures fn d (n - 1) w)"
  using assms(2,3)
proof (induction "n - a" arbitrary: a le)
  case 0
  then have an: "a = n" by simp
  let ?W = "after_failures fn d (n - 1) w"
  from 0 an have "n - 1 < n" by simp
  with fails obtain e where "fst (fn ?W) = Inl e" by blast
  then obtain w1 where f: "fn ?W = (Inl e, w1)" by (cases "fn ?W") auto
  have "withRetry_loop fn name n d True n le ?W
          = withRetry_loop fn name n d True (n + 1) (Some e) w1"
    using withRetry_loop_failed_attempt[where fn = fn and w = ?W and e = e and ?w1.0 = w1
        and attempt = n and maxRetries = n and name = name and d = d and le = le] f
    by simp
  also have "\<dots> = (Inl e, w1)"
    by (rule withRetry_loop_exhausted) simp
  finally show ?case unfolding an using f by simp
next
  case (Suc m)
  then have lt: "a < n" by simp
  let ?W = "after_failures fn d (a - 1) w"
  from lt have "a - 1 < n" by simp
  with fails obtain e where "fst (fn ?W) = Inl e" by blast
  then obtain w1 where f: "fn ?W = (Inl e, w1)" by (cases "fn ?W") auto
  from Suc.prems have a: "Suc (a - 1) = a" by simp
  have "after_failures fn d (Suc (a - 1)) w = snd (setTimeout_promise (d * 2 ^ (a - 1)) w1)"
    using f by simp
  then have next_world:
    "snd (setTimeout_promise (d * 2 ^ (a - 1)) w1) = after_failures fn d (a + 1 - 1) w"
    using a by simp
  have "withRetry_loop fn name n d True a le ?W
          = withRetry_loop fn name n d True (a + 1) (Some e) (after_failures fn d (a + 1 - 1) w)"
    using withRetry_loop_failed_attempt[where fn = fn and w = ?W and e = e and ?w1.0 = w1
        and attempt = a and maxRetries = n and name = name and d = d and le = le]
      f lt next_world
    by simp
  also have "\<dots> = fn (after_failures fn d (n - 1) w)"
    by (rule Suc.hyps(1)) (use Suc.hyps(2) lt in simp_all)
  finally show ?case .
qed

text \<open>
  C5: with at least one attempt allowed and exponential back-off (given or by default), if
  the operation fails at each of the \<open>maxAttempts\<close> invocations, \<open>withRetry\<close> settles
  exactly as the last of them does: the operation has been invoked \<open>maxAttempts\<close> times in
  a row, the failed attempt number \<open>attempt\<close> was followed by a wait of
  \<open>initialDelay * 2^(attempt - 1)\<close> ms when it was not the last, nothing follows the last
  attempt, and the rejection is the error of the last attempt.
\<close>

theorem withRetry_exhausts_attempts:
  assumes attempts: "1 \<le> maxAttempts"
    and exponential: "exponential = None \<or> exponential = Some True"
    and fails: "\<forall>k<maxAttempts. \<exists>e. fst (fn (after_failures fn initialDelay k w)) = Inl e"
  shows "withRetry fn label (Some maxAttempts) (Some initialDelay) exponential w
           = fn (after_failures fn initialDelay (maxAttempts - 1) w)"
proof -
  have "withRetry fn label (Some maxAttempts) (Some initialDelay) exponential w
          = withRetry_loop fn (case label of None \<Rightarrow> ''Operation'' | Some n \<Rightarrow> n) maxAttempts
              initialDelay True 1 None (after_failures fn initialDelay (1 - 1) w)"
    using exponential by (auto simp: withRetry_def)
  also have "\<dots> = fn (after_failures fn initialDelay (maxAttempts - 1) w)"
    by (rule withRetry_loop_fails[OF fails _ attempts]) simp
  finally show ?thesis .
qed


text \<open>
  C5 with three attempts and an initial delay of 1000 ms on an operation that always fails:
  three invocations, waits of 1000 ms and 2000 ms between them, none after the last, and the
  last error.
\<close>

theorem withRetry_exhausts_attempts_witness:
  "withRetry (getBlockHeight down_connection) (Some ''TokenPurchase'') (Some 3) (Some 1000)
     (Some True) initial_world
   = (Inl (Error ''unreachable''), exhausted_world)"
proof -
  have down: "fst (getBlockHeight down_connection w) = Inl (Error ''unreachable'')" for w
    by (simp add: getBlockHeight_def down_connection_def demo_connection_def Let_def)
  have "withRetry (getBlockHeight down_connection) (Some ''TokenPurchase'') (Some 3) (Some 1000)
          (Some True) initial_world
        = getBlockHeight down_connection
            (after_failures (getBlockHeight down_connection) 1000 (3 - 1) initial_world)"
    by (rule withRetry_exhausts_attempts) (simp_all add: down)
  also have "\<dots> = (Inl (Error ''unreachable''), exhausted_world)"
    by (simp add: numeral_2_eq_2 getBlockHeight_def setTimeout_promise_def down_connection_def
          demo_connection_def initial_world_def exhausted_world_def Let_def)
  finally show ?thesis .
qed

section \<open>Balance watcher\<close>

declare balance_loop.simps [simp del]

lemma balance_loop_constant:
  assumes same: "\<forall>w'. fst (getTokenBalance P conn wal mint w') = Inr b"
    and "attempts \<le> retries"
  shows "balance_loop P conn wal mint retries d b b attempts w
           = (Inr b, resampled P conn wal mint d (retries - attempts) w)"
  using assms(2)
proof (induction "retries - attempts" arbitrary: attempts w)
  case 0
  then show ?case
    by (subst balance_loop.simps) simp
next
  case (Suc k)
  then have lt: "attempts < retries" by simp
  let ?w1 = "snd (getTokenBalance P conn wal mint (snd (delay d w)))"
  from same have "fst (getTokenBalance P conn wal mint (snd (delay d w))) = Inr b" by blast
  then have step: "await (delay d) (\<lambda>_. getTokenBalance P conn wal mint) w = (Inr b, ?w1)"
    by (cases "getTokenBalance P conn wal mint (snd (delay d w))")
       (simp add: await_def delay_def setTimeout_promise_def)
  have "balance_loop P conn wal mint retries d b b attempts w
          = balance_loop P conn wal mint retries d b b (attempts + 1) ?w1"
    by (subst balance_loop.simps) (simp add: lt step)
  also have "\<dots> = (Inr b, resampled P conn wal mint d (retries - (attempts + 1)) ?w1)"
    by (rule Suc.hyps(1)) (use Suc.hyps(2) lt in simp_all)
  also have "resampled P conn wal mint d (retries - (attempts + 1)) ?w1
               = resampled P conn wal mint d (retries - attempts) w"
  proof -
    from Suc.hyps(2) have "retries - attempts = Suc k" "retries - (attempts + 1) = k"
      by simp_all
    then show ?thesis by simp
  qed
  finally show ?case .
qed

text \<open>
  C9: over a balance source that gives the same amount at every sample,
  \<open>waitForBalanceChange\<close> resolves (it does not reject) with that amount after the first
  sample and exactly \<open>retries\<close> further samples, each preceded by one wait; \<open>retries\<close>
  is 5 when given as 5 or left out.
\<close>

theorem waitForBalanceChange_unchanged:
  assumes same: "\<forall>w'. fst (getTokenBalance P conn wal mint w') = Inr b"
  shows "waitForBalanceChange P conn wal mint retries delayMs w
           = (Inr b,
              resampled P conn wal mint (case delayMs of None \<Rightarrow> 2000 | Some d \<Rightarrow> d)
                (case retries of None \<Rightarrow> 5 | Some r \<Rightarrow> r)
                (snd (getTokenBalance P conn wal mint w)))"
proof -
  from same have "fst (getTokenBalance P conn wal mint w) = Inr b" by blast
  then obtain w1 where first: "getTokenBalance P conn wal mint w = (Inr b, w1)"
    by (cases "getTokenBalance P conn wal mint w") simp
  then show ?thesis
    unfolding waitForBalanceChange_def await_def
    by (simp add: balance_loop_constant[OF same])
qed


lemma quiet_balance:
  "getTokenBalance quiet_platform quiet_connection demo_wallet ''mint'' w
     = (Inr 0, w\<lparr>trace := trace w @ [GetTokenAccountBalance ''mintowner'' (Inr None)]\<rparr>)"
  by (simp add: getTokenBalance_def getTokenBalance_try_def try_catch_def await_def settle_def
        resolve_def getTokenAccountBalance_def quiet_platform_def quiet_connection_def
        demo_platform_def demo_connection_def demo_wallet_def SOL_MINT_def or_default_def
        digits_value_def Let_def)

text \<open>
  C9 with \<open>retries = 5\<close> on an account whose amount stays empty: six samples, five waits
  of 2000 ms, and the amount 0 is returned.
\<close>

theorem waitForBalanceChange_unchanged_witness:
  "waitForBalanceChange quiet_platform quiet_connection demo_wallet ''mint'' (Some 5) None
     initial_world
   = (Inr 0, unchanged_world)"
proof -
  have same: "\<forall>w'. fst (getTokenBalance quiet_platform quiet_connection demo_wallet ''mint'' w')
                = Inr 0"
    by (simp add: quiet_balance)
  have "resampled quiet_platform quiet_connection demo_wallet ''mint'' 2000 5
          (snd (getTokenBalance quiet_platform quiet_connection demo_wallet ''mint'' initial_world))
        = unchanged_world"
    by (simp add: eval_nat_numeral quiet_balance delay_def setTimeout_promise_def
          initial_world_def unchanged_world_def)
  with waitForBalanceChange_unchanged [OF same, of "Some 5" None initial_world]
  show ?thesis by simp
qed

section \<open>Token balance and the no-balance guard\<close>

lemma getTokenBalance_total:
  "\<exists>b. fst (getTokenBalance P conn wal mint w) = Inr b"
  by (simp add: getTokenBalance_def try_catch_def resolve_def split: prod.splits sum.splits)

lemma getTokenBalance_run:
  assumes "getTokenBalance P conn wal mint w = (r, w')"
  shows "\<exists>evs. trace w' = trace w @ evs \<and> process_env w' = process_env w \<and> clock w' = clock w
           \<and> list_all is_balance_read evs \<and> length evs \<le> 1"
  using assms
  by (auto simp: getTokenBalance_def getTokenBalance_try_def try_catch_def await_def settle_def
        resolve_def reject_def getBalance_def getTokenAccountBalance_def Let_def
        split: if_splits sum.splits prod.splits)

lemma safeSellAndClose_no_balance:
  assumes "fst (getTokenBalance P conn wal mint w) = Inr b" and "b \<le> 0"
  shows "safeSellAndClose P conn mint wal isNewToken w
           = (Inl (Error (''No balance available for token '' @ mint)),
              snd (getTokenBalance P conn wal mint w))"
proof -
  from assms(1) obtain w1 where g: "getTokenBalance P conn wal mint w = (Inr b, w1)"
    by (cases "getTokenBalance P conn wal mint w") simp
  then show ?thesis
    unfolding safeSellAndClose_def
    by (simp add: try_catch_def await_def reject_def assms(2))
qed

text \<open>
  C6: when the sampled balance is at most 0, \<open>safeSellAndClose\<close> rejects with the
  no-balance error in the world the balance read left: the run made at most one remote call,
  a balance read, hence no quote request and no read of the mint's decimals.
\<close>

theorem no_balance_before_quote:
  assumes sampled: "fst (getTokenBalance P conn wal mint w) = Inr b" and empty: "b \<le> 0"
  shows "safeSellAndClose P conn mint wal isNewToken w
           = (Inl (Error (''No balance available for token '' @ mint)),
              snd (getTokenBalance P conn wal mint w))
         \<and> list_all is_balance_read
             (new_events w (snd (safeSellAndClose P conn mint wal isNewToken w)))
         \<and> length (new_events w (snd (safeSellAndClose P conn mint wal isNewToken w))) \<le> 1"
proof -
  obtain r w1 where g: "getTokenBalance P conn wal mint w = (r, w1)"
    by (cases "getTokenBalance P conn wal mint w")
  from getTokenBalance_run[OF g] obtain evs where
    evs: "trace w1 = trace w @ evs" "list_all is_balance_read evs" "length evs \<le> 1"
    by blast
  then have "new_events w w1 = evs" by (simp add: new_events_append)
  with evs safeSellAndClose_no_balance[OF sampled empty, of isNewToken] g
  show ?thesis by simp
qed

text \<open>C6 on an account with no amount: one balance read, then the rejection.\<close>

theorem no_balance_before_quote_witness:
  "fst (getTokenBalance quiet_platform quiet_connection demo_wallet ''mint'' initial_world) = Inr 0
   \<and> safeSellAndClose quiet_platform quiet_connection ''mint'' demo_wallet (Some False)
        initial_world
      = (Inl (Error ''No balance available for token mint''),
         initial_world\<lparr>trace := [GetTokenAccountBalance ''mintowner'' (Inr None)]\<rparr>)"
proof -
  have sampled:
    "fst (getTokenBalance quiet_platform quiet_connection demo_wallet ''mint'' initial_world)
       = Inr 0"
    by (simp add: quiet_balance)
  from no_balance_before_quote [OF sampled, of "Some False"] sampled
  show ?thesis by (simp add: quiet_balance initial_world_def)
qed

text \<open>
  C10: \<open>getTokenBalance\<close> never rejects.  It resolves with 0 when the balance request of the
  native asset fails, when the token-account balance request fails (account missing or any
  other error), and when the mint address is malformed.  Whenever it resolves with 0, for
  whichever reason, \<open>safeSellAndClose\<close> rejects with the no-balance error.
\<close>

theorem getTokenBalance_failure_reads_as_empty:
  "(\<exists>b. fst (getTokenBalance P conn wal mint w) = Inr b)
   \<and> (mint = SOL_MINT \<and> rpc_getBalance conn w (publicKey wal) = Inl e
        \<longrightarrow> fst (getTokenBalance P conn wal mint w) = Inr 0)
   \<and> (mint \<noteq> SOL_MINT \<and> newPublicKey P mint = Inr key
        \<and> associatedTokenAddress P key (publicKey wal) = Inr account
        \<and> rpc_getTokenAccountBalance conn w account = Inl e
        \<longrightarrow> fst (getTokenBalance P conn wal mint w) = Inr 0)
   \<and> (newPublicKey P mint = Inl e \<longrightarrow> mint \<noteq> SOL_MINT
        \<longrightarrow> fst (getTokenBalance P conn wal mint w) = Inr 0)
   \<and> (fst (getTokenBalance P conn wal mint w) = Inr 0
        \<longrightarrow> safeSellAndClose P conn mint wal isNewToken w
              = (Inl (Error (''No balance available for token '' @ mint)),
                 snd (getTokenBalance P conn wal mint w)))"
proof (intro conjI impI)
  show "\<exists>b. fst (getTokenBalance P conn wal mint w) = Inr b"
    by (rule getTokenBalance_total)
next
  assume "mint = SOL_MINT \<and> rpc_getBalance conn w (publicKey wal) = Inl e"
  then show "fst (getTokenBalance P conn wal mint w) = Inr 0"
    by (simp add: getTokenBalance_def getTokenBalance_try_def try_catch_def await_def
          resolve_def getBalance_def Let_def)
next
  assume "mint \<noteq> SOL_MINT \<and> newPublicKey P mint = Inr key
        \<and> associatedTokenAddress P key (publicKey wal) = Inr account
        \<and> rpc_getTokenAccountBalance conn w account = Inl e"
  then show "fst (getTokenBalance P conn wal mint w) = Inr 0"
    by (simp add: getTokenBalance_def getTokenBalance_try_def try_catch_def await_def settle_def
          resolve_def reject_def getTokenAccountBalance_def Let_def)
next
  assume "newPublicKey P mint = Inl e" and "mint \<noteq> SOL_MINT"
  then show "fst (getTokenBalance P conn wal mint w) = Inr 0"
    by (simp add: getTokenBalance_def getTokenBalance_try_def try_catch_def await_def settle_def
          resolve_def)
next
  assume "fst (getTokenBalance P conn wal mint w) = Inr 0"
  then show "safeSellAndClose P conn mint wal isNewToken w
              = (Inl (Error (''No balance available for token '' @ mint)),
                 snd (getTokenBalance P conn wal mint w))"
    by (rule safeSellAndClose_no_balance) simp
qed

text \<open>
  C10 on a ledger whose token-balance request fails with \<open>fetch failed\<close>: the balance
  reads as 0 and the sale is rejected for lack of balance.
\<close>

theorem getTokenBalance_failure_reads_as_empty_witness:
  "rpc_getTokenAccountBalance flaky_connection initial_world ''mintowner''
     = Inl (Error ''fetch failed'')
   \<and> fst (getTokenBalance flaky_platform flaky_connection demo_wallet ''mint'' initial_world)
       = Inr 0
   \<and> fst (safeSellAndClose flaky_platform flaky_connection ''mint'' demo_wallet (Some False)
            initial_world)
       = Inl (Error ''No balance available for token mint'')"
proof -
  have failed: "''mint'' \<noteq> SOL_MINT \<and> newPublicKey flaky_platform ''mint'' = Inr ''mint''
        \<and> associatedTokenAddress flaky_platform ''mint'' (publicKey demo_wallet) = Inr ''mintowner''
        \<and> rpc_getTokenAccountBalance flaky_connection initial_world ''mintowner''
            = Inl (Error ''fetch failed'')"
    by (simp add: flaky_platform_def flaky_connection_def demo_platform_def demo_connection_def
          demo_wallet_def SOL_MINT_def)
  note facts = getTokenBalance_failure_reads_as_empty
    [of flaky_platform flaky_connection demo_wallet "''mint''" initial_world
        "Error ''fetch failed''" "''mint''" "''mintowner''" "Some False"]
  from facts failed
  have zero: "fst (getTokenBalance flaky_platform flaky_connection demo_wallet ''mint''
                     initial_world) = Inr 0"
    by blast
  with facts
  have "safeSellAndClose flaky_platform flaky_connection ''mint'' demo_wallet (Some False)
          initial_world
        = (Inl (Error (''No balance available for token '' @ ''mint'')),
           snd (getTokenBalance flaky_platform flaky_connection demo_wallet ''mint''
                  initial_world))"
    by blast
  with zero failed show ?thesis by simp
qed

section \<open>Unfolding the collaborators\<close>

lemmas io_defs = await_def settle_def resolve_def reject_def try_catch_def with_env_def
  setTimeout_promise_def delay_def wait_def sendRawTransaction_def getBlockHeight_def
  getTransaction_def simulateTransaction_def getBalance_def getTokenAccountBalance_def
  getParsedAccountInfo_def quoteGet_def swapPost_def

lemmas demo_defs = demo_platform_def demo_connection_def demo_wallet_def digits_value_def
  initial_world_def

section \<open>Frame: who writes \<open>process.env\<close>\<close>

lemma keeps_envD: "keeps_env m \<Longrightarrow> m w = (r, w') \<Longrightarrow> process_env w' = process_env w"
  unfolding keeps_env_def by (metis snd_conv)

lemma keeps_env_resolve [simp]: "keeps_env (resolve x)"
  by (simp add: keeps_env_def resolve_def)

lemma keeps_env_reject [simp]: "keeps_env (reject e)"
  by (simp add: keeps_env_def reject_def)

lemma keeps_env_settle [simp]: "keeps_env (settle r)"
  by (simp add: keeps_env_def settle_def)

lemma keeps_env_await:
  assumes "keeps_env m" and "\<And>x. keeps_env (k x)"
  shows "keeps_env (await m k)"
  unfolding keeps_env_def
proof
  fix w
  obtain r w1 where m: "m w = (r, w1)" by (cases "m w")
  have e1: "process_env w1 = process_env w" by (rule keeps_envD[OF assms(1) m])
  show "process_env (snd (await m k w)) = process_env w"
  proof (cases r)
    case (Inl e)
    with m e1 show ?thesis by (simp add: await_def)
  next
    case (Inr x)
    from assms(2)[of x] have "process_env (snd (k x w1)) = process_env w1"
      by (simp add: keeps_env_def)
    with m Inr e1 show ?thesis by (simp add: await_def)
  qed
qed

lemma keeps_env_try_catch:
  assumes "keeps_env m" and "\<And>e. keeps_env (h e)"
  shows "keeps_env (try_catch m h)"
  unfolding keeps_env_def
proof
  fix w
  obtain r w1 where m: "m w = (r, w1)" by (cases "m w")
  have e1: "process_env w1 = process_env w" by (rule keeps_envD[OF assms(1) m])
  show "process_env (snd (try_catch m h w)) = process_env w"
  proof (cases r)
    case (Inr x)
    with m e1 show ?thesis by (simp add: try_catch_def)
  next
    case (Inl e)
    from assms(2)[of e] have "process_env (snd (h e w1)) = process_env w1"
      by (simp add: keeps_env_def)
    with m Inl e1 show ?thesis by (simp add: try_catch_def)
  qed
qed

lemma keeps_env_with_env:
  assumes "\<And>env. keeps_env (f env)"
  shows "keeps_env (with_env f)"
  using assms by (simp add: keeps_env_def with_env_def)

lemma keeps_env_remote [simp]:
  "keeps_env (setTimeout_promise ms)" "keeps_env (delay ms)" "keeps_env (wait ms)"
  "keeps_env (sendRawTransaction conn tx)" "keeps_env (getBlockHeight conn)"
  "keeps_env (getTransaction conn sig)" "keeps_env (simulateTransaction conn t c)"
  "keeps_env (getBalance conn owner)" "keeps_env (getTokenAccountBalance conn account)"
  "keeps_env (getParsedAccountInfo conn account)" "keeps_env (quoteGet P params)"
  "keeps_env (swapPost P req)"
  by (simp_all add: keeps_env_def io_defs Let_def)

lemmas keeps_env_intros = keeps_env_await keeps_env_try_catch keeps_env_with_env

lemma keeps_env_sender [simp]: "keeps_env (transactionSenderAndConfirmationWaiter params)"
  unfolding keeps_env_def
proof
  fix w
  obtain r w' where "transactionSenderAndConfirmationWaiter params w = (r, w')"
    by (cases "transactionSenderAndConfirmationWaiter params w")
  with sender_run[OF this] show "process_env (snd (transactionSenderAndConfirmationWaiter params w)) = process_env w"
    by auto
qed

lemma keeps_env_executeSwap [simp]: "keeps_env (executeSwap P conn sr wal)"
  unfolding keeps_env_def
proof
  fix w
  obtain r w' where "executeSwap P conn sr wal w = (r, w')"
    by (cases "executeSwap P conn sr wal w")
  with executeSwap_run[OF this] show "process_env (snd (executeSwap P conn sr wal w)) = process_env w"
    by auto
qed

lemma keeps_env_getSwapResponse [simp]: "keeps_env (getSwapResponse P wal quote options)"
  unfolding getSwapResponse_def by (simp add: keeps_env_with_env Let_def)

lemma keeps_env_simulateSwap [simp]: "keeps_env (simulateSwap P conn sr wal)"
  unfolding simulateSwap_def by (auto intro!: keeps_env_intros)

lemma keeps_env_swap_attempt [simp]: "keeps_env (swap_attempt P conn quote wal)"
  unfolding swap_attempt_def by (auto intro!: keeps_env_intros)

declare executeSwapSafely_loop.simps [simp del]

lemma executeSwapSafely_loop_env:
  "process_env (snd (executeSwapSafely_loop P conn quote wal n a le w)) = process_env w"
proof (induction P conn quote wal n a le w rule: executeSwapSafely_loop.induct)
  case (1 P conn quote wal maxRetries attempt lastError w)
  show ?case
  proof (cases "attempt \<le> maxRetries")
    case False
    then show ?thesis by (subst executeSwapSafely_loop.simps) simp
  next
    case True
    obtain r w1 where s: "swap_attempt P conn quote wal w = (r, w1)"
      by (cases "swap_attempt P conn quote wal w")
    then have e1: "process_env w1 = process_env w"
      using keeps_envD[OF keeps_env_swap_attempt] by blast
    show ?thesis
    proof (cases r)
      case (Inr sig)
      with True s e1 show ?thesis by (subst executeSwapSafely_loop.simps) simp
    next
      case (Inl e)
      from "1.IH"[OF True s[symmetric] Inl]
      have "process_env (snd (executeSwapSafely_loop P conn quote wal maxRetries (attempt + 1)
              (Some e)
              (if attempt < maxRetries then snd (delay (min (500 * 2 ^ attempt) 2000) w1) else w1)))
            = process_env (if attempt < maxRetries
                           then snd (delay (min (500 * 2 ^ attempt) 2000) w1) else w1)" .
      also have "\<dots> = process_env w1"
        by (simp add: delay_def setTimeout_promise_def)
      finally show ?thesis using True s Inl e1
        by (subst executeSwapSafely_loop.simps) simp
    qed
  qed
qed

lemma keeps_env_executeSwapSafely [simp]: "keeps_env (executeSwapSafely P conn quote wal n)"
  by (simp add: keeps_env_def executeSwapSafely_def executeSwapSafely_loop_env)

lemma keeps_env_checked_quote [simp]: "keeps_env (checked_quote P msg quote)"
  unfolding checked_quote_def
  by (auto intro!: keeps_env_intros split: option.splits)

lemma keeps_env_buy [simp]: "keeps_env (buy P mint isNewToken)"
  unfolding buy_def Let_def
  by (auto intro!: keeps_env_intros split: sum.splits)

lemma withRetry_loop_env:
  "keeps_env fn \<Longrightarrow>
     process_env (snd (withRetry_loop fn name n d b a le w)) = process_env w"
proof (induction fn name n d b a le w rule: withRetry_loop.induct)
  case (1 fn name n d b a le w)
  show ?case
  proof (cases "a \<le> n")
    case False
    then show ?thesis by (subst withRetry_loop.simps) simp
  next
    case True
    obtain r w1 where s: "fn w = (r, w1)" by (cases "fn w")
    have e1: "process_env w1 = process_env w" by (rule keeps_envD[OF "1.prems" s])
    show ?thesis
    proof (cases r)
      case (Inr x)
      with True s e1 show ?thesis by (subst withRetry_loop.simps) (simp add: Let_def)
    next
      case (Inl e)
      let ?delayMs = "if b then d * 2 ^ (a - 1) else d"
      let ?w2 = "if a < n then snd (setTimeout_promise ?delayMs w1) else w1"
      have "process_env (snd (withRetry_loop fn name n d b (a + 1) (Some e) ?w2))
              = process_env ?w2"
        using "1.IH" True s Inl "1.prems" by simp
      also have "\<dots> = process_env w1"
        by (simp add: setTimeout_promise_def)
      finally show ?thesis using True s Inl e1
        by (subst withRetry_loop.simps) (simp add: Let_def)
    qed
  qed
qed

lemma keeps_env_withRetry: "keeps_env fn \<Longrightarrow> keeps_env (withRetry fn name n d b)"
  by (simp add: keeps_env_def withRetry_def withRetry_loop_env)

lemma keeps_env_getTokenBalance [simp]: "keeps_env (getTokenBalance P conn wal mint)"
  unfolding keeps_env_def
proof
  fix w
  obtain r w' where "getTokenBalance P conn wal mint w = (r, w')"
    by (cases "getTokenBalance P conn wal mint w")
  with getTokenBalance_run[OF this]
  show "process_env (snd (getTokenBalance P conn wal mint w)) = process_env w"
    by auto
qed

lemma keeps_env_getTokenDecimals [simp]: "keeps_env (getTokenDecimals conn mint)"
  unfolding getTokenDecimals_def
  by (auto intro!: keeps_env_intros split: option.splits)

lemma balance_loop_env:
  "process_env (snd (balance_loop P conn wal mint n d b0 b a w)) = process_env w"
proof (induction P conn wal mint n d b0 b a w rule: balance_loop.induct)
  case (1 P conn wal mint n d b0 b a w)
  show ?case
  proof (cases "a < n \<and> b = b0")
    case False
    then show ?thesis by (subst balance_loop.simps) auto
  next
    case True
    have k: "keeps_env (await (delay d) (\<lambda>_. getTokenBalance P conn wal mint))"
      by (auto intro!: keeps_env_intros)
    obtain r w1 where s: "await (delay d) (\<lambda>_. getTokenBalance P conn wal mint) w = (r, w1)"
      by (cases "await (delay d) (\<lambda>_. getTokenBalance P conn wal mint) w")
    have e1: "process_env w1 = process_env w" by (rule keeps_envD[OF k s])
    show ?thesis
    proof (cases r)
      case (Inl e)
      with True s e1 show ?thesis by (subst balance_loop.simps) simp
    next
      case (Inr x)
      have "process_env (snd (balance_loop P conn wal mint n d b0 x (a + 1) w1)) = process_env w1"
        using "1.IH" True s Inr by simp
      with True s Inr e1 show ?thesis by (subst balance_loop.simps) simp
    qed
  qed
qed

lemma keeps_env_waitForBalanceChange [simp]:
  "keeps_env (waitForBalanceChange P conn wal mint n d)"
  unfolding waitForBalanceChange_def
proof (rule keeps_env_await)
  show "keeps_env (getTokenBalance P conn wal mint)" by simp
next
  fix x
  show "keeps_env (balance_loop P conn wal mint (case n of None \<Rightarrow> 5 | Some r \<Rightarrow> r)
          (case d of None \<Rightarrow> 2000 | Some d \<Rightarrow> d) x x 0)"
    by (simp add: keeps_env_def balance_loop_env)
qed

lemma keeps_env_safeSellAndClose [simp]:
  "keeps_env (safeSellAndClose P conn mint wal isNewToken)"
  unfolding safeSellAndClose_def Let_def
  by (auto intro!: keeps_env_intros split: option.splits)


section \<open>The buy-amount override\<close>

text \<open>
  What \<open>buyAndSellFlow\<close> leaves in \<open>process.env.BUY_AMOUNT_SOL\<close> when it is given an
  override: the override itself when the buy step rejects (the rejection is rethrown past the
  restoring assignment), the configured amount read at the start when the buy step resolves.
\<close>

lemma buyAndSellFlow_buy_amount:
  fixes P :: platform and mint :: string and a :: real and w :: world
  defines "config \<equiv> getConfig P (process_env w)"
  defines "overridden \<equiv> w\<lparr>process_env := (process_env w)(''BUY_AMOUNT_SOL'' \<mapsto> numberToString P a)\<rparr>"
  defines "buy_step \<equiv> withRetry (buy P mint (Some (NEW_TOKEN_MODE config = ''true'')))
                         (Some ''TokenPurchase'') (Some 3) (Some 1000) None"
  assumes wallet: "getWallet P (process_env w) = Inr wal"
  shows "(\<forall>e. fst (buy_step overridden) = Inl e \<longrightarrow>
            fst (buyAndSellFlow P mint (Some a) w) = Inl e
            \<and> process_env (snd (buyAndSellFlow P mint (Some a) w)) ''BUY_AMOUNT_SOL''
                = Some (numberToString P a))
         \<and> (\<forall>tx. fst (buy_step overridden) = Inr tx \<longrightarrow>
            process_env (snd (buyAndSellFlow P mint (Some a) w)) ''BUY_AMOUNT_SOL''
                = Some (BUY_AMOUNT_SOL config))"
proof (intro conjI allI impI)
  fix e
  assume f: "fst (buy_step overridden) = Inl e"
  then obtain w2 where b: "buy_step overridden = (Inl e, w2)"
    by (cases "buy_step overridden") simp
  have "keeps_env buy_step"
    unfolding buy_step_def by (rule keeps_env_withRetry) simp
  from keeps_envD[OF this b] have e2: "process_env w2 = process_env overridden" .
  have run: "buyAndSellFlow P mint (Some a) w = (Inl e, w2)"
    using wallet b
    unfolding buyAndSellFlow_def buy_step_def config_def overridden_def
    by (simp add: try_catch_def await_def settle_def with_env_def set_env_def reject_def Let_def)
  from run show "fst (buyAndSellFlow P mint (Some a) w) = Inl e" by simp
  from run e2 show "process_env (snd (buyAndSellFlow P mint (Some a) w)) ''BUY_AMOUNT_SOL''
                = Some (numberToString P a)"
    by (simp add: overridden_def)
next
  fix tx
  assume f: "fst (buy_step overridden) = Inr tx"
  then obtain w2 where b: "buy_step overridden = (Inr tx, w2)"
    by (cases "buy_step overridden") simp
  let ?conn = "newConnection P (RPC_ENDPOINT config)"
  let ?w3 = "w2\<lparr>process_env := (process_env w2)(''BUY_AMOUNT_SOL'' \<mapsto> BUY_AMOUNT_SOL config)\<rparr>"
  let ?rest = "await (waitForBalanceChange P ?conn wal mint
                        (Some (parsed_or P (BALANCE_RETRY_COUNT config) 5))
                        (Some (parsed_or P (BALANCE_RETRY_DELAY_MS config) 2000)))
                 (\<lambda>purchasedAmount.
                    await (delay (parsed_or P (SELL_DELAY_SECONDS config) 60 * 1000))
                      (\<lambda>_. await
                              (try_catch
                                 (withRetry
                                    (safeSellAndClose P ?conn mint wal
                                       (Some (NEW_TOKEN_MODE config = ''true'')))
                                    (Some ''TokenSell'') (Some 5) (Some 1000) (Some True))
                                 (\<lambda>error. reject error))
                              (\<lambda>sellTx. resolve ())))"
  have k: "keeps_env ?rest"
    by (auto intro!: keeps_env_intros keeps_env_withRetry)
  have run: "buyAndSellFlow P mint (Some a) w = try_catch ?rest (\<lambda>error. reject error) ?w3"
    using wallet b
    unfolding buyAndSellFlow_def buy_step_def config_def overridden_def
    by (simp add: try_catch_def await_def settle_def with_env_def set_env_def reject_def Let_def)
  have "keeps_env (try_catch ?rest (\<lambda>error. reject error))"
    by (rule keeps_env_try_catch[OF k]) simp
  then have "process_env (snd (try_catch ?rest (\<lambda>error. reject error) ?w3)) = process_env ?w3"
    by (simp add: keeps_env_def)
  with run show "process_env (snd (buyAndSellFlow P mint (Some a) w)) ''BUY_AMOUNT_SOL''
                = Some (BUY_AMOUNT_SOL config)"
    by simp
qed

lemma no_route_buy:
  "process_env w = overridden_env \<Longrightarrow>
   buy quiet_platform ''mint'' (Some False) w
     = (Inl (Error ''Invalid quote received - possible insufficient liquidity''),
        w\<lparr>trace := trace w @ [no_route_quote]\<rparr>)"
  unfolding buy_def checked_quote_def
  by (simp add: io_defs demo_defs quiet_platform_def quiet_connection_def Let_def getWallet_def
        overridden_env_def SOL_MINT_def or_default_def calculateSlippage_def getConfig_def
        toLamports_def SOL_DECIMALS_def no_route_quote_def)

lemma no_route_flow:
  "buyAndSellFlow quiet_platform ''mint'' (Some (1 / 2)) funded_world
     = (Inl (Error ''Invalid quote received - possible insufficient liquidity''),
        funded_world
          \<lparr> clock := 3000, process_env := overridden_env,
            trace := [no_route_quote, SetTimeout 1000, no_route_quote, SetTimeout 2000,
                      no_route_quote] \<rparr>)"
proof -
  have start: "getWallet quiet_platform (process_env funded_world) = Inr demo_wallet"
    "NEW_TOKEN_MODE (getConfig quiet_platform (process_env funded_world)) = ''false''"
    "numberToString quiet_platform (1 / 2) = ''0.5''"
    "clock funded_world = 0" "trace funded_world = []"
    by (simp_all add: getWallet_def getConfig_def funded_world_def quiet_platform_def demo_defs
          or_default_def)
  have env: "(process_env funded_world)(''BUY_AMOUNT_SOL'' \<mapsto> ''0.5'') = overridden_env"
    by (auto simp: funded_world_def overridden_env_def)
  show ?thesis
    unfolding buyAndSellFlow_def withRetry_def
    by (simp add: start env try_catch_def await_def settle_def with_env_def set_env_def
          reject_def Let_def withRetry_loop.simps no_route_buy setTimeout_promise_def)
qed


text \<open>
  C7 at a failing buy: \<open>buyAndSellFlow(mint, 0.5)\<close> with \<open>BUY_AMOUNT_SOL=1\<close> configured
  and a quoting service that finds no route.  The three buy attempts quote 0.5 SOL and fail,
  the flow rejects with the last error, and the configured buy amount read afterwards is
  \<open>0.5\<close>, not the original \<open>1\<close>: the override is not restored on this exit.
\<close>

theorem override_survives_failed_buy:
  "fst (buyAndSellFlow quiet_platform ''mint'' (Some (1 / 2)) funded_world)
     = Inl (Error ''Invalid quote received - possible insufficient liquidity'')
   \<and> BUY_AMOUNT_SOL (getConfig quiet_platform (process_env funded_world)) = ''1''
   \<and> BUY_AMOUNT_SOL
        (getConfig quiet_platform
           (process_env (snd (buyAndSellFlow quiet_platform ''mint'' (Some (1 / 2)) funded_world))))
       = ''0.5''"
proof -
  have before: "BUY_AMOUNT_SOL (getConfig quiet_platform (process_env funded_world)) = ''1''"
    by (simp add: getConfig_def or_default_def funded_world_def)
  have after: "BUY_AMOUNT_SOL (getConfig quiet_platform overridden_env) = ''0.5''"
    by (simp add: getConfig_def or_default_def overridden_env_def)
  from before after show ?thesis
    by (simp add: no_route_flow)
qed

section \<open>Quote validation before a swap\<close>

text \<open>
  The test shared by \<open>buy\<close> and \<open>sell\<close> lets a quote through only when its
  \<open>outAmount\<close> is present and positive.
\<close>

lemma checked_quote_positive:
  assumes "fst (checked_quote P msg quote w) = Inr q"
  shows "\<exists>out n. quote = Some q \<and> outAmount q = Some out \<and> out \<noteq> [] \<and> bigInt P out = Inr n \<and> 0 < n"
  using assms
  by (auto simp: checked_quote_def await_def settle_def reject_def resolve_def
        split: option.splits if_splits sum.splits)

lemma worthless_balance:
  "getTokenBalance worthless_platform landed_connection demo_wallet ''mint'' w
     = (Inr (1 / 2),
        w\<lparr>trace := trace w @ [GetTokenAccountBalance ''mintowner'' (Inr (Some (1 / 2)))]\<rparr>)"
  by (simp add: getTokenBalance_def getTokenBalance_try_def io_defs demo_defs
        worthless_platform_def landed_connection_def SOL_MINT_def or_default_def Let_def)

lemma worthless_decimals:
  "getTokenDecimals landed_connection ''mint'' w
     = (Inr 6,
        w\<lparr>trace := trace w @ [GetParsedAccountInfo ''mint'' (Inr (Some \<lparr> decimals = Some 6 \<rparr>))]\<rparr>)"
  by (simp add: getTokenDecimals_def io_defs demo_defs landed_connection_def SOL_MINT_def Let_def)

lemma worthless_swap:
  "process_env w = process_env funded_world \<Longrightarrow> clock w = 0 \<Longrightarrow>
   swap_attempt worthless_platform landed_connection worthless_quote demo_wallet w
     = (Inr ''sig1'', w\<lparr>trace := trace w @ swap_events\<rparr>)"
  unfolding swap_attempt_def getSwapResponse_def simulateSwap_def executeSwap_def
    transactionSenderAndConfirmationWaiter_def
  by (simp add: io_defs demo_defs worthless_platform_def landed_connection_def
        landed_response_def tx_failed_def Let_def funded_world_def swap_events_def
        getConfig_def truthy_def or_default_def passed_simulation_def signed_tx_def)

lemma sold_run:
  "safeSellAndClose worthless_platform landed_connection ''mint'' demo_wallet (Some False)
     funded_world
   = (Inr ''sig1'', funded_world\<lparr>trace := sold_events\<rparr>)"
proof -
  have quote: "outAmount worthless_quote = Some ''0''"
    "bigInt worthless_platform ''0'' = Inr 0"
    "newPublicKey worthless_platform ''mint'' = Inr ''mint''"
    "jup_quoteGet worthless_platform w q = Inr (Some worthless_quote)" for w q
    by (simp_all add: worthless_quote_def worthless_platform_def demo_defs)
  have slip: "calculateSlippage worthless_platform (process_env funded_world) (Some False) = 100"
    by (simp add: calculateSlippage_def getConfig_def worthless_platform_def demo_defs
          funded_world_def or_default_def)
  have env: "process_env (funded_world\<lparr>trace := t\<rparr>) = process_env funded_world"
    "clock (funded_world\<lparr>trace := t\<rparr>) = 0"
    "trace funded_world = []" for t
    by (simp_all add: funded_world_def)
  show ?thesis
    unfolding safeSellAndClose_def executeSwapSafely_def
    by (simp add: worthless_balance worthless_decimals worthless_swap quote slip env
          executeSwapSafely_loop.simps try_catch_def await_def settle_def with_env_def quoteGet_def Let_def sold_events_def)
qed

lemma worthless_sell:
  "fst (sell worthless_platform ''mint'' (1 / 2) (Some False) funded_world)
     = Inl (Error ''Invalid sell quote received - possible insufficient liquidity'')"
  unfolding sell_def getTokenDecimals_def checked_quote_def
  by (simp add: io_defs demo_defs worthless_platform_def landed_connection_def
        Let_def funded_world_def getWallet_def
        SOL_MINT_def or_default_def worthless_quote_def calculateSlippage_def getConfig_def)

lemma worthless_buy:
  "fst (buy worthless_platform ''mint'' (Some False) funded_world)
     = Inl (Error ''Invalid quote received - possible insufficient liquidity'')"
  unfolding buy_def checked_quote_def
  by (simp add: io_defs demo_defs worthless_platform_def landed_connection_def
        Let_def funded_world_def getWallet_def
        SOL_MINT_def or_default_def worthless_quote_def calculateSlippage_def getConfig_def)


text \<open>
  C8 at a quote of zero output: the wallet holds 0.5 tokens and the quoting service answers
  the full-balance sell quote with \<open>outAmount = "0"\<close>.  \<open>safeSellAndClose\<close> tests only
  that \<open>outAmount\<close> is present, so it builds the swap, simulates it, broadcasts it and
  returns its signature; \<open>sell\<close> and \<open>buy\<close> reject the same quote.
\<close>

theorem zero_output_quote_is_swapped:
  "safeSellAndClose worthless_platform landed_connection ''mint'' demo_wallet (Some False)
     funded_world
   = (Inr ''sig1'', funded_world\<lparr>trace := sold_events\<rparr>)
   \<and> outAmount worthless_quote = Some ''0''
   \<and> bigInt worthless_platform ''0'' = Inr 0
   \<and> filter is_broadcast sold_events = [SendRawTransaction ''tx'' (Inr ''sig1'')]
   \<and> fst (sell worthless_platform ''mint'' (1 / 2) (Some False) funded_world)
       = Inl (Error ''Invalid sell quote received - possible insufficient liquidity'')
   \<and> fst (buy worthless_platform ''mint'' (Some False) funded_world)
       = Inl (Error ''Invalid quote received - possible insufficient liquidity'')"
proof -
  have quote: "outAmount worthless_quote = Some ''0''" "bigInt worthless_platform ''0'' = Inr 0"
    by (simp_all add: worthless_quote_def worthless_platform_def demo_defs)
  have sent: "filter is_broadcast sold_events = [SendRawTransaction ''tx'' (Inr ''sig1'')]"
    by (simp add: sold_events_def swap_events_def passed_simulation_def)
  from quote sent sold_run worthless_sell worthless_buy show ?thesis
    by simp
qed

end
